theory Spec2Isabelle
  imports Main "HOL-Library.Word"
begin

unbundle bit_operations_syntax

section \<open>Values of the host language\<close>

text \<open>
  A JavaScript string is a sequence of UTF-16 code units; \<open>length\<close> counts code units and
  the regular expressions of the sources test code units. Byte arrays (\<open>Uint8Array\<close>) are
  lists of octets. A property of TypeScript type \<open>T\<close> is modelled as \<open>T option\<close>, where
  \<open>None\<close> stands for \<open>undefined\<close> (a missing property). Numbers are the integer-valued
  ones (timestamps in milliseconds).
\<close>

type_synonym unit16 = "16 word"
type_synonym jsstring = "unit16 list"
type_synonym bytes = "8 word list"

definition jstr :: "string \<Rightarrow> jsstring" where
  "jstr s = map (\<lambda>c. word_of_nat (of_char c)) s"

text \<open>Truthiness of a string and of a number: \<open>!x\<close> holds for \<open>undefined\<close>, \<open>""\<close> and \<open>0\<close>.\<close>

fun falsy_str :: "jsstring option \<Rightarrow> bool" where
  "falsy_str None = True"
| "falsy_str (Some s) = (s = [])"

fun falsy_num :: "int option \<Rightarrow> bool" where
  "falsy_num None = True"
| "falsy_num (Some n) = (n = 0)"

section \<open>Errors\<close>

datatype ProtocolErrorCode =
    EXPIRED_CODE | INVALID_CODE | INVALID_CODE_FORMAT | INVALID_SIGNATURE
  | MISSING_META | INVALID_META_FORMAT | META_MISMATCH | META_TOO_LARGE
  | INVALID_TRANSACTION_FORMAT | TRANSACTION_NOT_SIGNED_BY_INTENDED_OWNER
  | TRANSACTION_NOT_SIGNED_BY_ISSUER | INVALID_PUBKEY_FORMAT | INVALID_INPUT
  | MISSING_REQUIRED_FIELD | CRYPTO_ERROR | INVALID_DIGEST | INVALID_ADAPTER

text \<open>
  What a call can throw: a typed \<open>ProtocolError\<close> with its code and the field (or the
  detail) it names, the \<open>TypeError\<close> of a property read on \<open>undefined\<close>, or an error of an
  external library.
\<close>

datatype exn = ProtocolError ProtocolErrorCode string | TypeError | LibraryError

fun isProtocolError :: "exn \<Rightarrow> bool" where
  "isProtocolError (ProtocolError _ _) = True"
| "isProtocolError _ = False"

fun errorCode :: "exn \<Rightarrow> ProtocolErrorCode option" where
  "errorCode (ProtocolError c _) = Some c"
| "errorCode _ = None"

section \<open>JSON text and UTF-8, as \<open>JSON.stringify\<close> and \<open>TextEncoder\<close> produce them\<close>

definition isLeadingSurrogate :: "unit16 \<Rightarrow> bool" where
  "isLeadingSurrogate c \<longleftrightarrow> 0xD800 \<le> c \<and> c \<le> 0xDBFF"

definition isTrailingSurrogate :: "unit16 \<Rightarrow> bool" where
  "isTrailingSurrogate c \<longleftrightarrow> 0xDC00 \<le> c \<and> c \<le> 0xDFFF"

definition isSurrogate :: "unit16 \<Rightarrow> bool" where
  "isSurrogate c \<longleftrightarrow> isLeadingSurrogate c \<or> isTrailingSurrogate c"

text \<open>A string is well-formed UTF-16 when every surrogate is half of a pair.\<close>

fun wellFormedUTF16 :: "jsstring \<Rightarrow> bool" where
  "wellFormedUTF16 (c # d # cs) =
     (if isLeadingSurrogate c \<and> isTrailingSurrogate d then wellFormedUTF16 cs
      else \<not> isSurrogate c \<and> wellFormedUTF16 (d # cs))"
| "wellFormedUTF16 [c] = (\<not> isSurrogate c)"
| "wellFormedUTF16 [] = True"

definition hexDigit :: "nat \<Rightarrow> unit16" where
  "hexDigit n = (if n < 10 then word_of_nat (48 + n) else word_of_nat (87 + n))"

definition UnicodeEscape :: "unit16 \<Rightarrow> jsstring" where
  "UnicodeEscape c =
     [0x5C, 0x75, hexDigit (unat c div 4096), hexDigit (unat c div 256 mod 16),
      hexDigit (unat c div 16 mod 16), hexDigit (unat c mod 16)]"

text \<open>
  \<open>QuoteJSONString\<close> of ECMAScript: the two-character escapes, \<open>\uXXXX\<close> for the other
  control characters below U+0020 and for lone surrogates, every other code point as it is.
\<close>

definition quoteUnit :: "unit16 \<Rightarrow> jsstring" where
  "quoteUnit c =
     (if c = 0x08 then [0x5C, 0x62]
      else if c = 0x09 then [0x5C, 0x74]
      else if c = 0x0A then [0x5C, 0x6E]
      else if c = 0x0C then [0x5C, 0x66]
      else if c = 0x0D then [0x5C, 0x72]
      else if c = 0x22 then [0x5C, 0x22]
      else if c = 0x5C then [0x5C, 0x5C]
      else if c < 0x20 \<or> isSurrogate c then UnicodeEscape c
      else [c])"

fun quoteUnits :: "jsstring \<Rightarrow> jsstring" where
  "quoteUnits (c # d # cs) =
     (if isLeadingSurrogate c \<and> isTrailingSurrogate d then c # d # quoteUnits cs
      else quoteUnit c @ quoteUnits (d # cs))"
| "quoteUnits [c] = quoteUnit c"
| "quoteUnits [] = []"

definition QuoteJSONString :: "jsstring \<Rightarrow> jsstring" where
  "QuoteJSONString s = 0x22 # quoteUnits s @ [0x22]"

text \<open>
  A number is a double. An integer stands for the double nearest to it (round to nearest,
  ties to even), as a numeric literal does; the integers up to \<open>2^53\<close> in magnitude, and
  beyond them those with 53 significant bits, are doubles themselves. The model covers the
  finite ones.
\<close>

fun bitLength :: "nat \<Rightarrow> nat" where
  "bitLength n = (if n = 0 then 0 else Suc (bitLength (n div 2)))"

declare bitLength.simps [simp del]

definition roundToDouble :: "nat \<Rightarrow> nat" where
  "roundToDouble v =
     (let u = 2 ^ (bitLength v - 53); q = v div u; r = v mod u
      in if 2 * r < u \<or> (2 * r = u \<and> even q) then q * u else (q + 1) * u)"

fun digits :: "nat \<Rightarrow> jsstring" where
  "digits n = (if n < 10 then [word_of_nat (48 + n)]
               else digits (n div 10) @ [word_of_nat (48 + n mod 10)])"

declare digits.simps [simp del]

text \<open>
  \<open>Number::toString\<close> of ECMAScript on an integer-valued number \<open>x\<close>: the digits of the
  integer \<open>s\<close> with the fewest digits such that \<open>s * 10^m\<close> is read back as \<open>x\<close>, and of
  those the one nearest to \<open>x\<close> (the even one of two equally near), followed by \<open>m\<close>
  zeros; from 22 digits on, the exponent form \<open>d.ddde+n\<close>. \<open>candidate x m\<close> looks for
  \<open>s\<close> at a given \<open>m\<close>; the only multiples of \<open>10^m\<close> that can be nearest are the two
  around \<open>x\<close>.
\<close>

definition candidate :: "nat \<Rightarrow> nat \<Rightarrow> nat option" where
  "candidate x m =
     (let p = 10 ^ m; lo = x div p; hi = lo + 1;
          okLo = (0 < lo \<and> roundToDouble (lo * p) = x);
          okHi = (roundToDouble (hi * p) = x)
      in if okLo \<and> okHi
           then (if x - lo * p < hi * p - x \<or> (x - lo * p = hi * p - x \<and> even lo)
                 then Some lo else Some hi)
         else if okLo then Some lo
         else if okHi then Some hi
         else None)"

fun shortest :: "nat \<Rightarrow> nat \<Rightarrow> nat \<times> nat" where
  "shortest x 0 = (x, 0)"
| "shortest x (Suc m) =
     (case candidate x (Suc m) of
        Some s \<Rightarrow> (s, Suc m)
      | None \<Rightarrow> shortest x m)"

fun stripZeros :: "nat \<Rightarrow> nat" where
  "stripZeros s = (if s \<noteq> 0 \<and> s mod 10 = 0 then stripZeros (s div 10) else s)"

declare stripZeros.simps [simp del]

definition render :: "nat \<Rightarrow> nat \<Rightarrow> jsstring" where
  "render s m =
     (let n = length (digits s) + m
      in if n \<le> 21 then digits s @ replicate m 0x30
         else (case digits (stripZeros s) of
                 [] \<Rightarrow> []
               | d # ds \<Rightarrow> d # (if ds = [] then [] else 0x2E # ds)
                            @ [0x65, 0x2B] @ digits (n - 1)))"

definition NumberToString :: "int \<Rightarrow> jsstring" where
  "NumberToString n =
     (let x = roundToDouble (nat \<bar>n\<bar>);
          (s, m) = shortest x (length (digits x) - 1)
      in (if n < 0 then [0x2D] else []) @ render s m)"

datatype jsvalue = JString jsstring | JNumber int | JUndefined

fun optString :: "jsstring option \<Rightarrow> jsvalue" where
  "optString None = JUndefined"
| "optString (Some s) = JString s"

fun optNumber :: "int option \<Rightarrow> jsvalue" where
  "optNumber None = JUndefined"
| "optNumber (Some n) = JNumber n"

text \<open>
  \<open>JSON.stringify\<close> of an object literal whose values are strings and numbers: the
  properties in insertion order, a property whose value is \<open>undefined\<close> left out.
\<close>

fun serializeValue :: "jsvalue \<Rightarrow> jsstring option" where
  "serializeValue (JString s) = Some (QuoteJSONString s)"
| "serializeValue (JNumber n) = Some (NumberToString n)"
| "serializeValue JUndefined = None"

fun serializeProperty :: "string \<times> jsvalue \<Rightarrow> jsstring option" where
  "serializeProperty (k, v) =
     (case serializeValue v of
        None \<Rightarrow> None
      | Some t \<Rightarrow> Some (QuoteJSONString (jstr k) @ 0x3A # t))"

fun joinComma :: "jsstring list \<Rightarrow> jsstring" where
  "joinComma [] = []"
| "joinComma [x] = x"
| "joinComma (x # y # ys) = x @ 0x2C # joinComma (y # ys)"

definition JSON_stringify :: "(string \<times> jsvalue) list \<Rightarrow> jsstring" where
  "JSON_stringify props = 0x7B # joinComma (List.map_filter serializeProperty props) @ [0x7D]"

text \<open>
  \<open>TextEncoder.encode\<close>: UTF-8, a surrogate pair as the four bytes of its code point, a lone
  surrogate as U+FFFD.
\<close>

definition utf8_2 :: "nat \<Rightarrow> bytes" where
  "utf8_2 n = [word_of_nat (192 + n div 64), word_of_nat (128 + n mod 64)]"

definition utf8_3 :: "nat \<Rightarrow> bytes" where
  "utf8_3 n = [word_of_nat (224 + n div 4096), word_of_nat (128 + n div 64 mod 64),
               word_of_nat (128 + n mod 64)]"

definition utf8_4 :: "nat \<Rightarrow> bytes" where
  "utf8_4 n = [word_of_nat (240 + n div 262144), word_of_nat (128 + n div 4096 mod 64),
               word_of_nat (128 + n div 64 mod 64), word_of_nat (128 + n mod 64)]"

definition pairCodePoint :: "unit16 \<Rightarrow> unit16 \<Rightarrow> nat" where
  "pairCodePoint c d = 65536 + (unat c - 55296) * 1024 + (unat d - 56320)"

definition encodeUnit :: "unit16 \<Rightarrow> bytes" where
  "encodeUnit c =
     (if c < 0x80 then [ucast c]
      else if c < 0x800 then utf8_2 (unat c)
      else if isSurrogate c then [0xEF, 0xBF, 0xBD]
      else utf8_3 (unat c))"

fun TextEncoder_encode :: "jsstring \<Rightarrow> bytes" where
  "TextEncoder_encode (c # d # cs) =
     (if isLeadingSurrogate c \<and> isTrailingSurrogate d
      then utf8_4 (pairCodePoint c d) @ TextEncoder_encode cs
      else encodeUnit c @ TextEncoder_encode (d # cs))"
| "TextEncoder_encode [c] = encodeUnit c"
| "TextEncoder_encode [] = []"

section \<open>Canonical serializers (utils/canonical.ts)\<close>

definition CANONICAL_MESSAGE_VERSION :: int where
  "CANONICAL_MESSAGE_VERSION = 1"

definition CANONICAL_MESSAGE_PREFIX :: jsstring where
  "CANONICAL_MESSAGE_PREFIX = jstr ''actioncodes''"

definition CANONICAL_REVOKE_MESSAGE_PREFIX :: jsstring where
  "CANONICAL_REVOKE_MESSAGE_PREFIX = jstr ''actioncodes-revoke''"

text \<open>The character class \<open>["\\\x00-\x1f\x7f-\x9f]\<close> of the guards.\<close>

definition unsafeUnit :: "unit16 \<Rightarrow> bool" where
  "unsafeUnit c \<longleftrightarrow> c = 0x22 \<or> c = 0x5C \<or> c \<le> 0x1F \<or> (0x7F \<le> c \<and> c \<le> 0x9F)"

definition hasUnsafeChars :: "jsstring \<Rightarrow> bool" where
  "hasUnsafeChars s = list_ex unsafeUnit s"

definition invalidInput :: "string \<Rightarrow> exn" where
  "invalidInput field = ProtocolError INVALID_INPUT field"

record CanonicalMessageParts =
  pubkey :: "jsstring option"
  windowStart :: "int option"

definition serializeCanonical :: "CanonicalMessageParts \<Rightarrow> exn + bytes" where
  "serializeCanonical parts =
     (case CanonicalMessageParts.pubkey parts of
        None \<Rightarrow> Inl (invalidInput ''pubkey'')
      | Some pk \<Rightarrow>
          if length pk = 0 then Inl (invalidInput ''pubkey'')
          else if length pk > 100 then Inl (invalidInput ''pubkey'')
          else if hasUnsafeChars pk then Inl (invalidInput ''pubkey'')
          else Inr (TextEncoder_encode (JSON_stringify
                 [(''id'', JString CANONICAL_MESSAGE_PREFIX),
                  (''ver'', JNumber CANONICAL_MESSAGE_VERSION),
                  (''pubkey'', JString pk),
                  (''windowStart'', optNumber (CanonicalMessageParts.windowStart parts))])))"

record CanonicalRevokeMessageParts =
  pubkey :: "jsstring option"
  codeHash :: "jsstring option"
  windowStart :: "int option"

definition serializeCanonicalRevoke :: "CanonicalRevokeMessageParts \<Rightarrow> exn + bytes" where
  "serializeCanonicalRevoke parts =
     (case CanonicalRevokeMessageParts.pubkey parts of
        None \<Rightarrow> Inl (invalidInput ''pubkey'')
      | Some pk \<Rightarrow>
         (case codeHash parts of
            None \<Rightarrow> Inl (invalidInput ''codeHash'')
          | Some h \<Rightarrow>
              if length pk = 0 then Inl (invalidInput ''pubkey'')
              else if length pk > 100 then Inl (invalidInput ''pubkey'')
              else if length h = 0 then Inl (invalidInput ''codeHash'')
              else if length h > 100 then Inl (invalidInput ''codeHash'')
              else if hasUnsafeChars pk \<or> hasUnsafeChars h then Inl (invalidInput ''input'')
              else Inr (TextEncoder_encode (JSON_stringify
                     [(''id'', JString CANONICAL_REVOKE_MESSAGE_PREFIX),
                      (''ver'', JNumber CANONICAL_MESSAGE_VERSION),
                      (''pubkey'', JString pk),
                      (''codeHash'', JString h),
                      (''windowStart'',
                         optNumber (CanonicalRevokeMessageParts.windowStart parts))]))))"

record DelegationProof =
  walletPubkey :: "jsstring option"
  delegatedPubkey :: "jsstring option"
  expiresAt :: "int option"
  chain :: "jsstring option"
  signature :: "jsstring option"

text \<open>The loop of \<open>serializeDelegationProof\<close> over its three string fields: the first failure.\<close>

fun checkProofFields :: "(string \<times> jsstring option) list \<Rightarrow> exn option" where
  "checkProofFields [] = None"
| "checkProofFields ((field, v) # rest) =
     (case v of
        None \<Rightarrow> Some (invalidInput field)
      | Some s \<Rightarrow>
          if length s = 0 then Some (invalidInput field)
          else if length s > 100 then Some (invalidInput field)
          else if hasUnsafeChars s then Some (invalidInput field)
          else checkProofFields rest)"

definition serializeDelegationProof :: "DelegationProof \<Rightarrow> exn + bytes" where
  "serializeDelegationProof proof =
     (case checkProofFields
             [(''walletPubkey'', walletPubkey proof),
              (''delegatedPubkey'', delegatedPubkey proof),
              (''chain'', DelegationProof.chain proof)] of
        Some e \<Rightarrow> Inl e
      | None \<Rightarrow>
          Inr (TextEncoder_encode (JSON_stringify
                 [(''walletPubkey'', optString (walletPubkey proof)),
                  (''delegatedPubkey'', optString (delegatedPubkey proof)),
                  (''expiresAt'', optNumber (DelegationProof.expiresAt proof)),
                  (''chain'', optString (DelegationProof.chain proof))])))"

section \<open>Records of the protocol (types.ts)\<close>

text \<open>
  A field is an option where the sources test its presence (\<open>!x\<close>, \<open>typeof x\<close>,
  \<open>x ?? ""\<close>); \<open>chain\<close>, \<open>code\<close> and \<open>expiresAt\<close> of an action code are only compared or
  passed on and have their declared types.
\<close>

record ActionCode =
  chain :: jsstring
  code :: jsstring
  pubkey :: "jsstring option"
  timestamp :: "int option"
  expiresAt :: int
  signature :: "jsstring option"

record DelegatedActionCode = ActionCode +
  delegationProof :: "DelegationProof option"

record CodeGenerationConfig =
  codeLength :: int
  ttlMs :: int
  clockSkewMs :: "int option"

section \<open>External capabilities\<close>

text \<open>
  The libraries the sources call are parameters of the model: \<open>bs58.decode\<close> and the
  \<open>PublicKey\<close> constructor of web3.js (\<open>None\<close> when they throw), the Ed25519 check behind
  \<open>nacl.sign.detached.verify\<close>, and \<open>codeHash\<close>, \<open>hmacSha256\<close> of utils/crypto.
  \<open>decodeCanonical\<close> reads \<open>pubkey\<close> and \<open>windowStart\<close> back from the bytes of a canonical
  message (\<open>JSON.parse\<close> of the decoded text).
\<close>

record CryptoLib =
  bs58_decode :: "jsstring \<Rightarrow> bytes option"
  PublicKey_toBytes :: "jsstring \<Rightarrow> bytes option"
  ed25519_verify :: "bytes \<Rightarrow> bytes \<Rightarrow> bytes \<Rightarrow> bool"
  codeHashFn :: "jsstring \<Rightarrow> jsstring"
  hmacSha256 :: "bytes \<Rightarrow> bytes \<Rightarrow> bytes"
  decodeCanonical :: "bytes \<Rightarrow> (jsstring \<times> int) option"

text \<open>\<open>bs58.decode(x)\<close> and \<open>new PublicKey(x).toBytes()\<close> on a possibly undefined argument.\<close>

definition bs58decode :: "CryptoLib \<Rightarrow> jsstring option \<Rightarrow> exn + bytes" where
  "bs58decode L x =
     (case x of
        None \<Rightarrow> Inl TypeError
      | Some s \<Rightarrow> (case bs58_decode L s of None \<Rightarrow> Inl LibraryError | Some b \<Rightarrow> Inr b))"

definition normalizePubkey :: "CryptoLib \<Rightarrow> jsstring option \<Rightarrow> exn + bytes" where
  "normalizePubkey L x =
     (case x of
        None \<Rightarrow> Inl TypeError
      | Some s \<Rightarrow> (case PublicKey_toBytes L s of None \<Rightarrow> Inl LibraryError | Some b \<Rightarrow> Inr b))"

section \<open>Computations that count their Ed25519 verifications\<close>

text \<open>
  A computation yields a value or throws, and carries the number of calls of
  \<open>nacl.sign.detached.verify\<close> made so far. tweetnacl throws on a signature that is not 64
  bytes or a key that is not 32 bytes, before any curve arithmetic.
\<close>

type_synonym 'a counted = "(exn + 'a) \<times> nat"

definition returnC :: "'a \<Rightarrow> 'a counted" where
  "returnC x = (Inr x, 0)"

definition liftC :: "exn + 'a \<Rightarrow> 'a counted" where
  "liftC r = (r, 0)"

definition bindC :: "'a counted \<Rightarrow> ('a \<Rightarrow> 'b counted) \<Rightarrow> 'b counted" where
  "bindC m f =
     (case m of
        (Inl e, n) \<Rightarrow> (Inl e, n)
      | (Inr x, n) \<Rightarrow> (case f x of (r, k) \<Rightarrow> (r, n + k)))"

definition nacl_sign_detached_verify ::
  "CryptoLib \<Rightarrow> bytes \<Rightarrow> bytes \<Rightarrow> bytes \<Rightarrow> bool counted" where
  "nacl_sign_detached_verify L msg sig pub =
     (if length sig \<noteq> 64 then (Inl LibraryError, 0)
      else if length pub \<noteq> 32 then (Inl LibraryError, 0)
      else (Inr (ed25519_verify L msg sig pub), 1))"

text \<open>\<open>try { ... } catch { return false }\<close>.\<close>

definition catchFalse :: "bool counted \<Rightarrow> bool counted" where
  "catchFalse m = (case m of (Inl e, n) \<Rightarrow> (Inr False, n) | (Inr b, n) \<Rightarrow> (Inr b, n))"

definition outcome :: "'a counted \<Rightarrow> exn + 'a" where
  "outcome m = fst m"

definition verifications :: "'a counted \<Rightarrow> nat" where
  "verifications m = snd m"

section \<open>The Solana adapter: signature checks (adapters/SolanaAdapter.ts)\<close>

definition ADAPTER_CHAIN_NAME :: jsstring where
  "ADAPTER_CHAIN_NAME = jstr ''solana''"

definition verifyWithWallet :: "CryptoLib \<Rightarrow> 'a ActionCode_scheme \<Rightarrow> bool counted" where
  "verifyWithWallet L actionCode =
     (if ActionCode.chain actionCode \<noteq> ADAPTER_CHAIN_NAME then returnC False
      else if falsy_str (ActionCode.pubkey actionCode) \<or> falsy_num (timestamp actionCode)
              \<or> falsy_str (ActionCode.signature actionCode) then returnC False
      else catchFalse (
        bindC (liftC (serializeCanonical
                 \<lparr>CanonicalMessageParts.pubkey = ActionCode.pubkey actionCode,
                  CanonicalMessageParts.windowStart = timestamp actionCode\<rparr>))
          (\<lambda>message.
        bindC (liftC (normalizePubkey L (ActionCode.pubkey actionCode))) (\<lambda>pubBytes.
        bindC (liftC (bs58decode L (ActionCode.signature actionCode))) (\<lambda>sigBytes.
          if length sigBytes \<noteq> 64 \<or> length pubBytes \<noteq> 32 then returnC False
          else nacl_sign_detached_verify L message sigBytes pubBytes)))))"

text \<open>
  The body shared by \<open>verifyWithDelegation\<close> and \<open>verifyRevokeWithDelegation\<close> once the
  proof object is at hand: the checks on the proof, then the \<open>try\<close> block with both
  verifications. \<open>secondMessage\<close> and \<open>secondSignature\<close> are the canonical (or the revoke)
  message and the signature of the delegated key over it.
\<close>

definition delegationChecks ::
  "CryptoLib \<Rightarrow> int \<Rightarrow> DelegatedActionCode \<Rightarrow> DelegationProof \<Rightarrow> (exn + bytes)
     \<Rightarrow> jsstring option \<Rightarrow> bool counted" where
  "delegationChecks L now delegatedActionCode proof secondMessage secondSignature =
     (if falsy_str (walletPubkey proof) \<or> falsy_str (delegatedPubkey proof)
         \<or> falsy_str (DelegationProof.chain proof) \<or> falsy_num (DelegationProof.expiresAt proof)
         \<or> falsy_str (DelegationProof.signature proof) then returnC False
      else if DelegationProof.chain proof \<noteq> Some ADAPTER_CHAIN_NAME then returnC False
      else if ActionCode.pubkey delegatedActionCode \<noteq> delegatedPubkey proof then returnC False
      else if (case DelegationProof.expiresAt proof of Some e \<Rightarrow> e < now | None \<Rightarrow> False)
        then returnC False
      else catchFalse (
        bindC (liftC (serializeDelegationProof proof)) (\<lambda>delegationMessage.
        bindC (liftC (normalizePubkey L (walletPubkey proof))) (\<lambda>walletPubBytes.
        bindC (liftC (bs58decode L (DelegationProof.signature proof))) (\<lambda>walletSigBytes.
        bindC (liftC secondMessage) (\<lambda>message.
        bindC (liftC (normalizePubkey L (delegatedPubkey proof))) (\<lambda>delegatedPubBytes.
        bindC (liftC (bs58decode L secondSignature)) (\<lambda>delegatedSigBytes.
          if length walletSigBytes \<noteq> 64 \<or> length walletPubBytes \<noteq> 32 then returnC False
          else if length delegatedSigBytes \<noteq> 64 \<or> length delegatedPubBytes \<noteq> 32
            then returnC False
          else
            bindC (nacl_sign_detached_verify L delegationMessage walletSigBytes walletPubBytes)
              (\<lambda>delegationProofOk.
            bindC (nacl_sign_detached_verify L message delegatedSigBytes delegatedPubBytes)
              (\<lambda>messageOk.
            returnC (delegationProofOk \<and> messageOk)))))))))))"

text \<open>
  \<open>verifyWithDelegation\<close> reads \<open>proof.walletPubkey\<close> without testing \<open>proof\<close> first: on an
  undefined \<open>delegationProof\<close> the read throws a \<open>TypeError\<close>, outside the \<open>try\<close> block.
\<close>

definition verifyWithDelegation ::
  "CryptoLib \<Rightarrow> int \<Rightarrow> DelegatedActionCode \<Rightarrow> bool counted" where
  "verifyWithDelegation L now delegatedActionCode =
     (if ActionCode.chain delegatedActionCode \<noteq> ADAPTER_CHAIN_NAME then returnC False
      else if falsy_str (ActionCode.pubkey delegatedActionCode)
              \<or> falsy_num (timestamp delegatedActionCode)
              \<or> falsy_str (ActionCode.signature delegatedActionCode) then returnC False
      else
        (case delegationProof delegatedActionCode of
           None \<Rightarrow> (Inl TypeError, 0)
         | Some proof \<Rightarrow>
             delegationChecks L now delegatedActionCode proof
               (serializeCanonical
                  \<lparr>CanonicalMessageParts.pubkey = delegatedPubkey proof,
                  CanonicalMessageParts.windowStart = timestamp delegatedActionCode\<rparr>)
               (ActionCode.signature delegatedActionCode)))"

definition verifyRevokeWithWallet ::
  "CryptoLib \<Rightarrow> 'a ActionCode_scheme \<Rightarrow> jsstring option \<Rightarrow> bool counted" where
  "verifyRevokeWithWallet L actionCode revokeSignature =
     (if ActionCode.chain actionCode \<noteq> ADAPTER_CHAIN_NAME then returnC False
      else if falsy_str (ActionCode.pubkey actionCode) \<or> falsy_num (timestamp actionCode)
              \<or> falsy_str revokeSignature then returnC False
      else catchFalse (
        bindC (liftC (serializeCanonicalRevoke
                 \<lparr>CanonicalRevokeMessageParts.pubkey = ActionCode.pubkey actionCode,
                  codeHash = Some (codeHashFn L (code actionCode)),
                  windowStart = timestamp actionCode\<rparr>))
          (\<lambda>message.
        bindC (liftC (normalizePubkey L (ActionCode.pubkey actionCode))) (\<lambda>pubBytes.
        bindC (liftC (bs58decode L revokeSignature)) (\<lambda>sigBytes.
          if length sigBytes \<noteq> 64 \<or> length pubBytes \<noteq> 32 then returnC False
          else nacl_sign_detached_verify L message sigBytes pubBytes)))))"

definition verifyRevokeWithDelegation ::
  "CryptoLib \<Rightarrow> int \<Rightarrow> DelegatedActionCode \<Rightarrow> jsstring option \<Rightarrow> bool counted" where
  "verifyRevokeWithDelegation L now delegatedActionCode revokeSignature =
     (if ActionCode.chain delegatedActionCode \<noteq> ADAPTER_CHAIN_NAME then returnC False
      else if falsy_str (ActionCode.pubkey delegatedActionCode)
              \<or> falsy_num (timestamp delegatedActionCode)
              \<or> falsy_str (ActionCode.signature delegatedActionCode)
              \<or> delegationProof delegatedActionCode = None then returnC False
      else
        (case delegationProof delegatedActionCode of
           None \<Rightarrow> (Inl TypeError, 0)
         | Some proof \<Rightarrow>
             delegationChecks L now delegatedActionCode proof
               (serializeCanonicalRevoke
                  \<lparr>CanonicalRevokeMessageParts.pubkey = delegatedPubkey proof,
                   codeHash = Some (codeHashFn L (code delegatedActionCode)),
                   windowStart = timestamp delegatedActionCode\<rparr>)
               revokeSignature))"

section \<open>The wallet strategy\<close>

text \<open>
  Modelled from the spec: \<open>WalletStrategy.generateCode\<close> (strategy/WalletStrategy.ts is not
  among the sources; its tests are). It reads \<open>pubkey\<close> and \<open>windowStart\<close> from the
  canonical message, derives the code as the decimal digits of
  \<open>hmac_sha256(signature_bytes, canonical_message)\<close> modulo \<open>10^N\<close> with \<open>N\<close> the code length
  clamped to 6..24, and sets \<open>timestamp = windowStart\<close>,
  \<open>expiresAt = windowStart + ttlMs\<close>, \<open>chain\<close> and \<open>signature\<close>. A signature that is not
  Base58 is refused with \<open>INVALID_SIGNATURE\<close>.
\<close>

definition CODE_MIN_LENGTH :: int where
  "CODE_MIN_LENGTH = 6"

definition CODE_MAX_LENGTH :: int where
  "CODE_MAX_LENGTH = 24"

definition clampCodeLength :: "int \<Rightarrow> nat" where
  "clampCodeLength n = nat (max CODE_MIN_LENGTH (min CODE_MAX_LENGTH n))"

definition bigEndian :: "bytes \<Rightarrow> nat" where
  "bigEndian bs = foldl (\<lambda>acc b. acc * 256 + unat b) 0 bs"

definition digitsFromDigest :: "bytes \<Rightarrow> nat \<Rightarrow> jsstring" where
  "digitsFromDigest digest n =
     (let ds = digits (bigEndian digest mod 10 ^ n)
      in replicate (n - length ds) 0x30 @ ds)"

definition invalidSignature :: "string \<Rightarrow> exn" where
  "invalidSignature detail = ProtocolError INVALID_SIGNATURE detail"

definition generateCode ::
  "CryptoLib \<Rightarrow> CodeGenerationConfig \<Rightarrow> bytes \<Rightarrow> jsstring \<Rightarrow> jsstring \<Rightarrow> exn + ActionCode"
  where
  "generateCode L cfg canonicalMessage ch sg =
     (case decodeCanonical L canonicalMessage of
        None \<Rightarrow> Inl (invalidInput ''canonicalMessage'')
      | Some (pk, ws) \<Rightarrow>
         (case bs58_decode L sg of
            None \<Rightarrow> Inl (invalidSignature ''Invalid Base58 signature format'')
          | Some sigBytes \<Rightarrow>
              Inr \<lparr>ActionCode.chain = ch,
                   code = digitsFromDigest (hmacSha256 L sigBytes canonicalMessage)
                            (clampCodeLength (codeLength cfg)),
                   pubkey = Some pk,
                   timestamp = Some ws,
                   expiresAt = ws + ttlMs cfg,
                   signature = Some sg\<rparr>))"

section \<open>The delegation strategy (strategy/DelegationStrategy.ts)\<close>

definition expiredCode :: "string \<Rightarrow> exn" where
  "expiredCode what = ProtocolError EXPIRED_CODE what"

definition missingRequiredField :: "string \<Rightarrow> exn" where
  "missingRequiredField field = ProtocolError MISSING_REQUIRED_FIELD field"

text \<open>The character class of \<open>^[a-z0-9-]+$\<close>.\<close>

definition chainChar :: "unit16 \<Rightarrow> bool" where
  "chainChar c \<longleftrightarrow> (0x61 \<le> c \<and> c \<le> 0x7A) \<or> (0x30 \<le> c \<and> c \<le> 0x39) \<or> c = 0x2D"

definition maxFuture :: int where
  "maxFuture = 365 * 24 * 60 * 60 * 1000"

definition validateDelegationProof :: "CryptoLib \<Rightarrow> int \<Rightarrow> DelegationProof \<Rightarrow> exn + unit" where
  "validateDelegationProof L now proof =
     (if falsy_str (walletPubkey proof) then Inl (invalidInput ''walletPubkey'')
      else if normalizePubkey L (walletPubkey proof) = Inl LibraryError
        then Inl (invalidInput ''walletPubkey'')
      else if falsy_str (delegatedPubkey proof) then Inl (invalidInput ''delegatedPubkey'')
      else if normalizePubkey L (delegatedPubkey proof) = Inl LibraryError
        then Inl (invalidInput ''delegatedPubkey'')
      else
        (case DelegationProof.chain proof of
           None \<Rightarrow> Inl (invalidInput ''chain'')
         | Some c \<Rightarrow>
             if c = [] then Inl (invalidInput ''chain'')
             else if length c = 0 \<or> length c > 50 then Inl (invalidInput ''chain'')
             else if \<not> list_all chainChar c then Inl (invalidInput ''chain'')
             else
               (case DelegationProof.expiresAt proof of
                  None \<Rightarrow> Inl (invalidInput ''expiresAt'')
                | Some e \<Rightarrow>
                    if e \<le> 0 then Inl (invalidInput ''expiresAt'')
                    else if e > now + maxFuture then Inl (invalidInput ''expiresAt'')
                    else if e < now then Inl (expiredCode ''Delegation proof has expired'')
                    else
                      (case DelegationProof.signature proof of
                         None \<Rightarrow> Inl (invalidInput ''signature'')
                       | Some sg \<Rightarrow>
                           if sg = [] then Inl (invalidInput ''signature'')
                           else if length sg = 0 \<or> length sg > 200
                             then Inl (invalidInput ''signature'')
                           else Inr ()))))"

definition generateDelegatedCode ::
  "CryptoLib \<Rightarrow> CodeGenerationConfig \<Rightarrow> int \<Rightarrow> DelegationProof \<Rightarrow> bytes \<Rightarrow> jsstring
     \<Rightarrow> jsstring \<Rightarrow> exn + DelegatedActionCode" where
  "generateDelegatedCode L cfg now proof canonicalMessage ch sg =
     (case validateDelegationProof L now proof of
        Inl e \<Rightarrow> Inl e
      | Inr _ \<Rightarrow>
         (case generateCode L cfg canonicalMessage ch sg of
            Inl e \<Rightarrow> Inl e
          | Inr res \<Rightarrow> Inr (ActionCode.extend res
                              (DelegatedActionCode.fields (Some proof)))))"

text \<open>
  \<open>validateDelegatedCode\<close>. Reading a property of an undefined \<open>delegationProof\<close> throws a
  \<open>TypeError\<close>. The library calls outside a \<open>try\<close> block pass their errors on.
\<close>

definition validateDelegatedCode ::
  "CryptoLib \<Rightarrow> CodeGenerationConfig \<Rightarrow> int \<Rightarrow> DelegatedActionCode \<Rightarrow> exn + unit" where
  "validateDelegatedCode L cfg now actionCode =
     (if now > ActionCode.expiresAt actionCode
               + (case clockSkewMs cfg of None \<Rightarrow> 0 | Some k \<Rightarrow> k)
        then Inl (expiredCode ''Action code has expired'')
      else
        (case delegationProof actionCode of
           None \<Rightarrow> Inl TypeError
         | Some proof \<Rightarrow>
            (case validateDelegationProof L now proof of
               Inl e \<Rightarrow> Inl e
             | Inr _ \<Rightarrow>
                 if ActionCode.pubkey actionCode \<noteq> delegatedPubkey proof
                   then Inl (invalidInput ''delegatedPubkey'')
                 else if (case DelegationProof.expiresAt proof of
                            Some e \<Rightarrow> ActionCode.expiresAt actionCode > e
                          | None \<Rightarrow> False)
                   then Inl (invalidInput ''expiresAt'')
                 else if falsy_str (DelegationProof.signature proof)
                   then Inl (missingRequiredField ''delegationProof.signature'')
                 else
                   (case serializeCanonical
                           \<lparr>CanonicalMessageParts.pubkey = delegatedPubkey proof,
                            CanonicalMessageParts.windowStart = timestamp actionCode\<rparr> of
                      Inl e \<Rightarrow> Inl e
                    | Inr canonicalMessage \<Rightarrow>
                       (case bs58decode L
                               (Some (case ActionCode.signature actionCode of
                                        None \<Rightarrow> [] | Some sg \<Rightarrow> sg)) of
                          Inl _ \<Rightarrow>
                            Inl (invalidSignature ''Invalid Base58 delegated signature format'')
                        | Inr signatureBytes \<Rightarrow>
                           (case bs58decode L (delegatedPubkey proof) of
                              Inl e \<Rightarrow> Inl e
                            | Inr delegatedPubkeyBytes \<Rightarrow>
                               (case outcome (nacl_sign_detached_verify L canonicalMessage
                                                signatureBytes delegatedPubkeyBytes) of
                                  Inl e \<Rightarrow> Inl e
                                | Inr isValidSignature \<Rightarrow>
                                    if \<not> isValidSignature
                                      then Inl (invalidSignature
                                                  ''Delegated signature verification failed'')
                                    else Inr ())))))))"

section \<open>The protocol facade (ActionCodesProtocol.ts)\<close>

text \<open>
  Property reads. An object without an own property of the name read answers with the
  member of that name of its prototype. The prototype of an object literal is
  \<open>Object.prototype\<close>; these are the names of its members, all of them truthy values.
\<close>

definition objectPrototypeNames :: "jsstring list" where
  "objectPrototypeNames =
     map jstr [''constructor'', ''__defineGetter__'', ''__defineSetter__'',
               ''hasOwnProperty'', ''__lookupGetter__'', ''__lookupSetter__'',
               ''isPrototypeOf'', ''propertyIsEnumerable'', ''toString'', ''valueOf'',
               ''__proto__'', ''toLocaleString'']"

text \<open>
  Modelled from the spec: \<open>SUPPORTED_CHAINS\<close> (constants.ts is not among the sources), the
  closed set of chains known to the facade, \<open>{"solana"}\<close>, as an object literal with the
  one own key \<open>solana\<close>. The read \<open>SUPPORTED_CHAINS[chain]\<close> of the sources is truthy for
  the own key and for every name the object inherits.
\<close>

definition SUPPORTED_CHAINS :: "jsstring \<Rightarrow> bool" where
  "SUPPORTED_CHAINS c \<longleftrightarrow> c = jstr ''solana'' \<or> c \<in> set objectPrototypeNames"

definition invalidAdapter :: "jsstring \<Rightarrow> exn" where
  "invalidAdapter c = ProtocolError INVALID_ADAPTER ''chain''"

text \<open>
  The state of a protocol object: its adapter registry and its configuration. The registry
  \<open>adapters\<close> starts as the object literal \<open>{}\<close>: it has own properties, and a prototype,
  which is \<open>Object.prototype\<close> (\<open>None\<close>) until an assignment to \<open>__proto__\<close> replaces it by
  an adapter. The type of adapters is a parameter (objects without accessors or read-only
  properties); the constructor is given the Solana adapter it registers.
\<close>

record 'ad ActionCodesProtocol =
  adapters :: "jsstring \<Rightarrow> 'ad option"
  adaptersPrototype :: "'ad option"
  config :: CodeGenerationConfig

definition newActionCodesProtocol :: "'ad \<Rightarrow> CodeGenerationConfig \<Rightarrow> 'ad ActionCodesProtocol"
  where
  "newActionCodesProtocol solanaAdapter cfg =
     \<lparr>adapters = (\<lambda>c. None)(jstr ''solana'' := Some solanaAdapter),
      adaptersPrototype = None,
      config = cfg\<rparr>"

text \<open>
  \<open>this.adapters[chain] = adapter\<close>: an own property, except that \<open>__proto__\<close> is the
  inherited accessor that sets the prototype.
\<close>

definition registerAdapter ::
  "'ad ActionCodesProtocol \<Rightarrow> jsstring \<Rightarrow> 'ad \<Rightarrow> 'ad ActionCodesProtocol" where
  "registerAdapter P c adapter =
     (if c = jstr ''__proto__'' then P\<lparr>adaptersPrototype := Some adapter\<rparr>
      else P\<lparr>adapters := (adapters P)(c := Some adapter)\<rparr>)"

text \<open>
  What \<open>this.adapters[chain]\<close> gives: a registered adapter, \<open>Object.prototype\<close> or one of its
  members, or the value that an adapter installed as prototype has under the name (which
  may be \<open>undefined\<close>). \<open>None\<close> is \<open>undefined\<close>.
\<close>

datatype 'ad property =
    Adapter 'ad
  | ObjectPrototype
  | ObjectPrototypeMember jsstring
  | PropertyOf 'ad jsstring

definition getAdapter :: "'ad ActionCodesProtocol \<Rightarrow> jsstring \<Rightarrow> 'ad property option" where
  "getAdapter P c =
     (case adapters P c of
        Some a \<Rightarrow> Some (Adapter a)
      | None \<Rightarrow>
         (case adaptersPrototype P of
            Some a \<Rightarrow> if c = jstr ''__proto__'' then Some (Adapter a)
                      else Some (PropertyOf a c)
          | None \<Rightarrow>
              if c = jstr ''__proto__'' then Some ObjectPrototype
              else if c \<in> set objectPrototypeNames then Some (ObjectPrototypeMember c)
              else None))"

definition getCanonicalMessageParts :: "int \<Rightarrow> jsstring option \<Rightarrow> exn + bytes" where
  "getCanonicalMessageParts now pk =
     serializeCanonical \<lparr>CanonicalMessageParts.pubkey = pk,
                         CanonicalMessageParts.windowStart = Some now\<rparr>"

text \<open>
  The signing capability: the value its promise resolves to (possibly undefined), or the
  error it rejects with. The strategy tag and its argument travel together.
\<close>

type_synonym SignFn = "bytes \<Rightarrow> jsstring \<Rightarrow> exn + jsstring option"

datatype GenerateInput = WalletInput "jsstring option" | DelegationInput DelegationProof

datatype GeneratedCode = WalletCode ActionCode | DelegatedCode DelegatedActionCode

definition generate ::
  "'ad ActionCodesProtocol \<Rightarrow> CryptoLib \<Rightarrow> int \<Rightarrow> GenerateInput \<Rightarrow> jsstring \<Rightarrow> SignFn option
     \<Rightarrow> exn + GeneratedCode" where
  "generate P L now input c signFn =
     (if c = [] \<or> \<not> SUPPORTED_CHAINS c then Inl (invalidAdapter c)
      else
        (case signFn of
           None \<Rightarrow> Inl (invalidSignature ''Missing signature function'')
         | Some sign \<Rightarrow>
            (case input of
               WalletInput pk \<Rightarrow>
                 (case getCanonicalMessageParts now pk of
                    Inl e \<Rightarrow> Inl e
                  | Inr canonical \<Rightarrow>
                     (case sign canonical c of
                        Inl e \<Rightarrow> Inl e
                      | Inr None \<Rightarrow>
                          Inl (invalidSignature ''Missing signature over canonical message'')
                      | Inr (Some sg) \<Rightarrow>
                          if sg = []
                            then Inl (invalidSignature
                                        ''Missing signature over canonical message'')
                          else map_sum id WalletCode
                                 (generateCode L (config P) canonical c sg)))
             | DelegationInput proof \<Rightarrow>
                 (case getCanonicalMessageParts now (delegatedPubkey proof) of
                    Inl e \<Rightarrow> Inl e
                  | Inr canonical \<Rightarrow>
                     (case sign canonical c of
                        Inl e \<Rightarrow> Inl e
                      | Inr None \<Rightarrow> Inl (invalidSignature ''Missing delegated signature'')
                      | Inr (Some sg) \<Rightarrow>
                          if sg = [] then Inl (invalidSignature ''Missing delegated signature'')
                          else map_sum id DelegatedCode
                                 (generateDelegatedCode L (config P) now proof canonical c
                                    sg))))))"

datatype RevokeInput = WalletRevoke ActionCode | DelegationRevoke DelegatedActionCode

text \<open>A revoke record: the action code it was given, with the revoke signature added.\<close>

datatype RevokeRecord = RevokeRecord RevokeInput jsstring

definition revokeMessage :: "CryptoLib \<Rightarrow> RevokeInput \<Rightarrow> exn + bytes" where
  "revokeMessage L input =
     (case input of
        WalletRevoke actionCode \<Rightarrow>
          serializeCanonicalRevoke
            \<lparr>CanonicalRevokeMessageParts.pubkey = ActionCode.pubkey actionCode,
             codeHash = Some (codeHashFn L (code actionCode)),
             windowStart = timestamp actionCode\<rparr>
      | DelegationRevoke actionCode \<Rightarrow>
         (case delegationProof actionCode of
            None \<Rightarrow> Inl TypeError
          | Some proof \<Rightarrow>
              serializeCanonicalRevoke
                \<lparr>CanonicalRevokeMessageParts.pubkey = delegatedPubkey proof,
                 codeHash = Some (codeHashFn L (code actionCode)),
                 windowStart = timestamp actionCode\<rparr>))"

definition revoke ::
  "'ad ActionCodesProtocol \<Rightarrow> CryptoLib \<Rightarrow> RevokeInput \<Rightarrow> jsstring \<Rightarrow> SignFn option
     \<Rightarrow> exn + RevokeRecord" where
  "revoke P L input c signFn =
     (if c = [] \<or> \<not> SUPPORTED_CHAINS c then Inl (invalidAdapter c)
      else
        (case signFn of
           None \<Rightarrow> Inl (invalidSignature ''Missing signature function'')
         | Some sign \<Rightarrow>
            (case revokeMessage L input of
               Inl e \<Rightarrow> Inl e
             | Inr canonical \<Rightarrow>
                (case sign canonical c of
                   Inl e \<Rightarrow> Inl e
                 | Inr None \<Rightarrow> Inl (invalidSignature ''Missing signature'')
                 | Inr (Some sg) \<Rightarrow>
                     if sg = [] then Inl (invalidSignature ''Missing signature'')
                     else Inr (RevokeRecord input sg)))))"

section \<open>Transactions and protocol meta (adapters/SolanaAdapter.ts)\<close>

text \<open>
  The transaction formats of web3.js, as far as the adapter reads them. The account list of
  a \<open>TransactionInstruction\<close> is never read by the operations below and is left out.
  A \<open>VersionedTransaction\<close> holds a \<open>MessageV0\<close> or, when a legacy transaction was
  deserialized as versioned, a legacy \<open>Message\<close> (its account keys and instructions).
\<close>

type_synonym PublicKey = bytes

definition MEMO_PROGRAM_ID :: PublicKey where
  "MEMO_PROGRAM_ID =
     [5, 74, 83, 90, 153, 41, 33, 6, 77, 36, 232, 113, 96, 218, 56, 124,
      124, 53, 181, 221, 188, 146, 187, 129, 228, 31, 168, 64, 65, 5, 68, 141]"

record TransactionInstruction =
  programId :: PublicKey
  data :: bytes

record MessageCompiledInstruction =
  programIdIndex :: int
  accountKeyIndexes :: "int list"
  data :: bytes

record MessageHeader =
  numRequiredSignatures :: nat
  numReadonlySignedAccounts :: nat
  numReadonlyUnsignedAccounts :: nat

record MessageAddressTableLookup =
  accountKey :: PublicKey
  writableIndexes :: "int list"
  readonlyIndexes :: "int list"

record MessageV0 =
  header :: MessageHeader
  staticAccountKeys :: "PublicKey list"
  recentBlockhash :: jsstring
  compiledInstructions :: "MessageCompiledInstruction list"
  addressTableLookups :: "MessageAddressTableLookup list"

datatype VersionedMessage =
    V0 MessageV0
  | LegacyMessage "PublicKey list" "MessageCompiledInstruction list"

record VersionedTransaction =
  message :: VersionedMessage
  signatures :: "bytes list"

record Transaction =
  instructions :: "TransactionInstruction list"
  signatures :: "(PublicKey \<times> bytes option) list"

datatype SolanaTransaction = LegacyTx Transaction | VersionedTx VersionedTransaction

record AddressLookupTableAccount =
  key :: PublicKey
  addresses :: "PublicKey list"

record TransactionMessage =
  payerKey :: PublicKey
  instructions :: "TransactionInstruction list"
  recentBlockhash :: jsstring

record ProtocolMetaFields =
  ver :: int
  id' :: jsstring
  int' :: jsstring
  iss :: "jsstring option"
  p' :: "jsstring option"

text \<open>
  The transaction library and the meta codec (utils/protocolMeta.ts, not among the
  sources) are parameters: \<open>None\<close> where the call throws (for \<open>parseProtocolMeta\<close>, also
  where it returns nothing).
\<close>

record TxLib =
  VersionedTransaction_deserialize :: "jsstring \<Rightarrow> VersionedTransaction option"
  Transaction_from :: "jsstring \<Rightarrow> Transaction option"
  VersionedTransaction_serialize :: "VersionedTransaction \<Rightarrow> jsstring option"
  Transaction_serialize :: "Transaction \<Rightarrow> jsstring option"
  TextDecoder_decode :: "bytes \<Rightarrow> jsstring"
  parseProtocolMeta :: "jsstring \<Rightarrow> ProtocolMetaFields option"
  buildProtocolMeta :: "ProtocolMetaFields \<Rightarrow> exn + jsstring"
  decompile :: "MessageV0 \<Rightarrow> AddressLookupTableAccount list \<Rightarrow> TransactionMessage option"
  compileToV0Message ::
    "TransactionMessage \<Rightarrow> AddressLookupTableAccount list \<Rightarrow> MessageV0 option"

definition invalidTransactionFormat :: "string \<Rightarrow> exn" where
  "invalidTransactionFormat detail = ProtocolError INVALID_TRANSACTION_FORMAT detail"

definition missingMeta :: exn where
  "missingMeta = ProtocolError MISSING_META []"

definition metaMismatch :: "string \<Rightarrow> exn" where
  "metaMismatch field = ProtocolError META_MISMATCH field"

text \<open>\<open>xs[i]\<close>: undefined outside the array.\<close>

definition at :: "'a list \<Rightarrow> int \<Rightarrow> 'a option" where
  "at xs i = (if 0 \<le> i \<and> i < int (length xs) then Some (xs ! nat i) else None)"

definition legacyFallback :: "TxLib \<Rightarrow> jsstring \<Rightarrow> exn + SolanaTransaction" where
  "legacyFallback T txString =
     (case Transaction_from T txString of
        Some t \<Rightarrow> Inr (LegacyTx t)
      | None \<Rightarrow> Inl (invalidTransactionFormat ''Invalid base64 transaction format''))"

definition deserializeTransaction :: "TxLib \<Rightarrow> jsstring \<Rightarrow> exn + SolanaTransaction" where
  "deserializeTransaction T txString =
     (case VersionedTransaction_deserialize T txString of
        None \<Rightarrow> legacyFallback T txString
      | Some versionedTx \<Rightarrow>
         (case message versionedTx of
            V0 msg \<Rightarrow> Inr (VersionedTx versionedTx)
          | LegacyMessage ks ixs \<Rightarrow> legacyFallback T txString))"

definition memoInstructionsOf ::
  "PublicKey list \<Rightarrow> MessageCompiledInstruction list \<Rightarrow> TransactionInstruction list" where
  "memoInstructionsOf staticKeys ixs =
     List.map_filter
       (\<lambda>ix. case at staticKeys (programIdIndex ix) of
                Some pid \<Rightarrow>
                  if pid = MEMO_PROGRAM_ID
                    then Some \<lparr>programId = pid,
                               TransactionInstruction.data = MessageCompiledInstruction.data ix\<rparr>
                    else None
              | None \<Rightarrow> None)
       ixs"

definition getMemoInstructions :: "SolanaTransaction \<Rightarrow> TransactionInstruction list" where
  "getMemoInstructions tx =
     (case tx of
        LegacyTx t \<Rightarrow>
          filter (\<lambda>ix. programId ix = MEMO_PROGRAM_ID) (Transaction.instructions t)
      | VersionedTx vtx \<Rightarrow>
         (case message vtx of
            V0 msg \<Rightarrow> memoInstructionsOf (staticAccountKeys msg) (compiledInstructions msg)
          | LegacyMessage ks ixs \<Rightarrow> []))"

text \<open>The first memo whose text parses as protocol meta.\<close>

fun firstProtocolMeta :: "TxLib \<Rightarrow> TransactionInstruction list \<Rightarrow> jsstring option" where
  "firstProtocolMeta T [] = None"
| "firstProtocolMeta T (ix # rest) =
     (let s = TextDecoder_decode T (TransactionInstruction.data ix)
      in case parseProtocolMeta T s of
           Some parsed \<Rightarrow> Some s
         | None \<Rightarrow> firstProtocolMeta T rest)"

definition getProtocolMeta :: "TxLib \<Rightarrow> jsstring \<Rightarrow> jsstring option" where
  "getProtocolMeta T txString =
     (case deserializeTransaction T txString of
        Inl e \<Rightarrow> None
      | Inr tx \<Rightarrow> firstProtocolMeta T (getMemoInstructions tx))"

definition parseMeta :: "TxLib \<Rightarrow> jsstring \<Rightarrow> ProtocolMetaFields option" where
  "parseMeta T txString =
     (case getProtocolMeta T txString of
        None \<Rightarrow> None
      | Some s \<Rightarrow> if s = [] then None else parseProtocolMeta T s)"

definition verifyTransactionMatchesCode ::
  "TxLib \<Rightarrow> CryptoLib \<Rightarrow> int \<Rightarrow> 'a ActionCode_scheme \<Rightarrow> jsstring \<Rightarrow> exn + unit" where
  "verifyTransactionMatchesCode T L now actionCode txString =
     (if now > ActionCode.expiresAt actionCode then Inl (expiredCode ''Action code has expired'')
      else
        (case parseMeta T txString of
           None \<Rightarrow> Inl missingMeta
         | Some meta \<Rightarrow>
             if ver meta \<noteq> 2 then Inl (metaMismatch ''ver'')
             else if id' meta \<noteq> codeHashFn L (code actionCode) then Inl (metaMismatch ''id'')
             else if Some (int' meta) \<noteq> ActionCode.pubkey actionCode
               then Inl (metaMismatch ''int'')
             else Inr ()))"

definition createProtocolMetaIx :: "TxLib \<Rightarrow> ProtocolMetaFields \<Rightarrow> exn + TransactionInstruction"
  where
  "createProtocolMetaIx T meta =
     (case buildProtocolMeta T meta of
        Inl e \<Rightarrow> Inl e
      | Inr metaString \<Rightarrow>
          Inr \<lparr>programId = MEMO_PROGRAM_ID,
               TransactionInstruction.data = TextEncoder_encode metaString\<rparr>)"

text \<open>
  The injected connection: \<open>getAddressLookupTable\<close>, with the value of its response
  (possibly null) or the error it fails with.
\<close>

type_synonym Connection = "PublicKey \<Rightarrow> exn + AddressLookupTableAccount option"

fun resolveLookups ::
  "Connection \<Rightarrow> MessageAddressTableLookup list \<Rightarrow> exn + AddressLookupTableAccount list" where
  "resolveLookups conn [] = Inr []"
| "resolveLookups conn (lookup # rest) =
     (case conn (accountKey lookup) of
        Inl e \<Rightarrow> Inl (invalidTransactionFormat ''Failed to resolve address lookup table'')
      | Inr v \<Rightarrow>
         (case resolveLookups conn rest of
            Inl e \<Rightarrow> Inl e
          | Inr accounts \<Rightarrow> Inr (case v of None \<Rightarrow> accounts | Some a \<Rightarrow> a # accounts)))"

fun findIndexFrom :: "('a \<Rightarrow> bool) \<Rightarrow> 'a list \<Rightarrow> int \<Rightarrow> int" where
  "findIndexFrom P [] i = - 1"
| "findIndexFrom P (x # xs) i = (if P x then i else findIndexFrom P xs (i + 1))"

definition findIndex :: "('a \<Rightarrow> bool) \<Rightarrow> 'a list \<Rightarrow> int" where
  "findIndex P xs = findIndexFrom P xs 0"

text \<open>
  How the rewritten transaction gets its signatures. adapters/SolanaAdapter.ts assigns the
  signatures of the transaction it was given; the later revision of the same file among the
  sources assigns \<open>numRequiredSignatures\<close> arrays of 64 zero bytes. The two revisions of
  \<open>attachProtocolMeta\<close> differ in nothing else.
\<close>

type_synonym SignaturePolicy = "VersionedTransaction \<Rightarrow> MessageV0 \<Rightarrow> bytes list"

definition preservedSignatures :: SignaturePolicy where
  "preservedSignatures versionedTx newMsg = VersionedTransaction.signatures versionedTx"

definition freshSignatures :: SignaturePolicy where
  "freshSignatures versionedTx newMsg =
     replicate (numRequiredSignatures (header newMsg)) (replicate 64 0)"

text \<open>
  The source returns the base64 text of the serialized transaction; the model returns it
  together with the transaction that was serialized.
\<close>

definition serializedVersioned ::
  "TxLib \<Rightarrow> VersionedTransaction \<Rightarrow> exn + SolanaTransaction \<times> jsstring" where
  "serializedVersioned T newTx =
     (case VersionedTransaction_serialize T newTx of
        None \<Rightarrow> Inl LibraryError
      | Some text \<Rightarrow> Inr (VersionedTx newTx, text))"

definition attachLegacy ::
  "TxLib \<Rightarrow> jsstring \<Rightarrow> TransactionInstruction \<Rightarrow> exn + SolanaTransaction \<times> jsstring" where
  "attachLegacy T txString metaIx =
     (case Transaction_from T txString of
        None \<Rightarrow> Inl LibraryError
      | Some legacyTx \<Rightarrow>
         (let added = legacyTx\<lparr>Transaction.instructions :=
                                 Transaction.instructions legacyTx @ [metaIx]\<rparr>
          in case Transaction_serialize T added of
               None \<Rightarrow> Inl LibraryError
             | Some text \<Rightarrow> Inr (LegacyTx added, text)))"

definition referencesLookupAccounts :: "MessageV0 \<Rightarrow> bool" where
  "referencesLookupAccounts msg =
     list_ex (\<lambda>ix. list_ex (\<lambda>idx. idx \<ge> int (length (staticAccountKeys msg)))
                      (accountKeyIndexes ix))
       (compiledInstructions msg)"

definition attachV0 ::
  "TxLib \<Rightarrow> SignaturePolicy \<Rightarrow> VersionedTransaction \<Rightarrow> MessageV0 \<Rightarrow> TransactionInstruction
     \<Rightarrow> Connection option \<Rightarrow> exn + SolanaTransaction \<times> jsstring" where
  "attachV0 T sigs versionedTx msg metaIx connection =
     (if addressTableLookups msg \<noteq> [] \<and> referencesLookupAccounts msg then
        (case connection of
           None \<Rightarrow> Inl (invalidTransactionFormat ''Connection required'')
         | Some conn \<Rightarrow>
            (case resolveLookups conn (addressTableLookups msg) of
               Inl e \<Rightarrow> Inl e
             | Inr addressLookupTableAccounts \<Rightarrow>
                (case decompile T msg addressLookupTableAccounts of
                   None \<Rightarrow> Inl LibraryError
                 | Some decompiledMessage \<Rightarrow>
                    (case compileToV0Message T
                            (decompiledMessage\<lparr>TransactionMessage.instructions :=
                               TransactionMessage.instructions decompiledMessage @ [metaIx]\<rparr>)
                            addressLookupTableAccounts of
                       None \<Rightarrow> Inl LibraryError
                     | Some recompiledMessage \<Rightarrow>
                         serializedVersioned T
                           \<lparr>message = V0 recompiledMessage,
                            signatures = sigs versionedTx recompiledMessage\<rparr>))))
      else
        (let newStaticKeys =
               (if list_ex (\<lambda>k. k = MEMO_PROGRAM_ID) (staticAccountKeys msg)
                then staticAccountKeys msg
                else staticAccountKeys msg @ [MEMO_PROGRAM_ID]);
             compiledIx =
               \<lparr>programIdIndex = findIndex (\<lambda>k. k = MEMO_PROGRAM_ID) newStaticKeys,
                accountKeyIndexes = [],
                data = TransactionInstruction.data metaIx\<rparr>;
             newMsg =
               \<lparr>header = header msg,
                staticAccountKeys = newStaticKeys,
                recentBlockhash = MessageV0.recentBlockhash msg,
                compiledInstructions = compiledInstructions msg @ [compiledIx],
                addressTableLookups = addressTableLookups msg\<rparr>
         in serializedVersioned T
              \<lparr>message = V0 newMsg, signatures = sigs versionedTx newMsg\<rparr>))"

text \<open>
  The body of \<open>attachProtocolMeta\<close>, given the meta already found in the transaction and
  the way signatures are assigned. An error that is not a \<open>ProtocolError\<close> leads to the
  legacy fallback.
\<close>

definition attachWith ::
  "TxLib \<Rightarrow> jsstring option \<Rightarrow> SignaturePolicy \<Rightarrow> jsstring \<Rightarrow> ProtocolMetaFields
     \<Rightarrow> Connection option \<Rightarrow> exn + SolanaTransaction \<times> jsstring" where
  "attachWith T existingMeta sigs txString meta connection =
     (if \<not> falsy_str existingMeta
        then Inl (invalidTransactionFormat ''Transaction already contains protocol meta'')
      else
        (case createProtocolMetaIx T meta of
           Inl e \<Rightarrow> Inl e
         | Inr metaIx \<Rightarrow>
            (case (case VersionedTransaction_deserialize T txString of
                     None \<Rightarrow> Inl LibraryError
                   | Some versionedTx \<Rightarrow>
                      (case message versionedTx of
                         V0 msg \<Rightarrow> attachV0 T sigs versionedTx msg metaIx connection
                       | LegacyMessage ks ixs \<Rightarrow> attachLegacy T txString metaIx)) of
               Inr r \<Rightarrow> Inr r
             | Inl e \<Rightarrow>
                 if isProtocolError e then Inl e
                 else
                   (case attachLegacy T txString metaIx of
                      Inr r \<Rightarrow> Inr r
                    | Inl e' \<Rightarrow>
                        Inl (invalidTransactionFormat
                               ''Invalid base64 transaction format'')))))"

definition attachProtocolMeta ::
  "TxLib \<Rightarrow> jsstring \<Rightarrow> ProtocolMetaFields \<Rightarrow> Connection option
     \<Rightarrow> exn + SolanaTransaction \<times> jsstring" where
  "attachProtocolMeta T txString meta connection =
     attachWith T (getProtocolMeta T txString) preservedSignatures txString meta connection"

text \<open>
  The later revision of adapters/SolanaAdapter.ts: \<open>deserializeTransaction\<close> keeps a
  versioned transaction whatever its message, \<open>getMemoInstructions\<close> reads the compiled
  instructions of either kind of message, and \<open>attachProtocolMeta\<close> assigns fresh
  signatures. (\<open>getProtocolMeta\<close> on its string argument.)
\<close>

definition deserializeTransaction_v2 :: "TxLib \<Rightarrow> jsstring \<Rightarrow> exn + SolanaTransaction" where
  "deserializeTransaction_v2 T txString =
     (case VersionedTransaction_deserialize T txString of
        None \<Rightarrow> legacyFallback T txString
      | Some versionedTx \<Rightarrow> Inr (VersionedTx versionedTx))"

definition getMemoInstructions_v2 :: "SolanaTransaction \<Rightarrow> TransactionInstruction list" where
  "getMemoInstructions_v2 tx =
     (case tx of
        LegacyTx t \<Rightarrow>
          filter (\<lambda>ix. programId ix = MEMO_PROGRAM_ID) (Transaction.instructions t)
      | VersionedTx vtx \<Rightarrow>
         (case message vtx of
            V0 msg \<Rightarrow> memoInstructionsOf (staticAccountKeys msg) (compiledInstructions msg)
          | LegacyMessage ks ixs \<Rightarrow> memoInstructionsOf ks ixs))"

definition getProtocolMeta_v2 :: "TxLib \<Rightarrow> jsstring \<Rightarrow> jsstring option" where
  "getProtocolMeta_v2 T txString =
     (case deserializeTransaction_v2 T txString of
        Inl e \<Rightarrow> None
      | Inr tx \<Rightarrow> firstProtocolMeta T (getMemoInstructions_v2 tx))"

definition attachProtocolMeta_v2 ::
  "TxLib \<Rightarrow> jsstring \<Rightarrow> ProtocolMetaFields \<Rightarrow> Connection option
     \<Rightarrow> exn + SolanaTransaction \<times> jsstring" where
  "attachProtocolMeta_v2 T txString meta connection =
     attachWith T (getProtocolMeta_v2 T txString) freshSignatures txString meta connection"

section \<open>Predicates used in the statements\<close>

text \<open>
  The checks of \<open>validateDelegationProof\<close> that come before the ones on \<open>expiresAt\<close>: both
  public keys present and accepted by the \<open>PublicKey\<close> constructor, the chain name present,
  of 1 to 50 characters, all of them lowercase letters, digits or hyphens.
\<close>

definition keysAndChainAccepted :: "CryptoLib \<Rightarrow> DelegationProof \<Rightarrow> bool" where
  "keysAndChainAccepted L proof \<longleftrightarrow>
     \<not> falsy_str (walletPubkey proof)
     \<and> normalizePubkey L (walletPubkey proof) \<noteq> Inl LibraryError
     \<and> \<not> falsy_str (delegatedPubkey proof)
     \<and> normalizePubkey L (delegatedPubkey proof) \<noteq> Inl LibraryError
     \<and> (case DelegationProof.chain proof of
          None \<Rightarrow> False
        | Some c \<Rightarrow> c \<noteq> [] \<and> length c \<le> 50 \<and> list_all chainChar c)"

text \<open>The clock skew in force: \<open>clockSkewMs ?? 0\<close>.\<close>

definition skewOf :: "CodeGenerationConfig \<Rightarrow> int" where
  "skewOf cfg = (case clockSkewMs cfg of None \<Rightarrow> 0 | Some k \<Rightarrow> k)"

text \<open>The decimal numeral of an integer, as a JSON text writes it.\<close>

definition decimal :: "int \<Rightarrow> jsstring" where
  "decimal n = (if n < 0 then 0x2D # digits (nat (- n)) else digits (nat n))"

section \<open>Concrete capabilities and values for the examples\<close>

text \<open>
  \<open>bs58.decode\<close> as the library computes it: the digits of the Bitcoin alphabet read as a
  base-58 number in big-endian bytes, one zero byte for each leading \<open>1\<close>; a character
  outside the alphabet throws. \<open>new PublicKey(s)\<close> accepts what decodes to 32 bytes.
\<close>

definition base58Alphabet :: jsstring where
  "base58Alphabet = jstr ''123456789ABCDEFGHJKLMNPQRSTUVWXYZabcdefghijkmnopqrstuvwxyz''"

fun indexOf :: "'a \<Rightarrow> 'a list \<Rightarrow> nat option" where
  "indexOf x [] = None"
| "indexOf x (y # ys) = (if x = y then Some 0 else map_option Suc (indexOf x ys))"

fun natToBytes :: "nat \<Rightarrow> bytes" where
  "natToBytes n = (if n = 0 then [] else natToBytes (n div 256) @ [word_of_nat (n mod 256)])"

declare natToBytes.simps [simp del]

definition base58Decode :: "jsstring \<Rightarrow> bytes option" where
  "base58Decode s =
     (case those (map (\<lambda>c. indexOf c base58Alphabet) s) of
        None \<Rightarrow> None
      | Some vs \<Rightarrow>
          Some (replicate (length (takeWhile (\<lambda>v. v = 0) vs)) 0
                @ natToBytes (foldl (\<lambda>acc v. acc * 58 + v) 0 vs)))"

definition publicKeyBytes :: "jsstring \<Rightarrow> bytes option" where
  "publicKeyBytes s =
     (case base58Decode s of
        None \<Rightarrow> None
      | Some b \<Rightarrow> if length b = 32 then Some b else None)"

text \<open>
  Example keys: the 32 zero bytes, and 31 zero bytes followed by 1 or by 2, in Base58. The
  example signature is the Base58 text of 64 zero bytes.
\<close>

definition walletKey :: jsstring where
  "walletKey = jstr ''11111111111111111111111111111111''"

definition delegatedKey :: jsstring where
  "delegatedKey = jstr ''11111111111111111111111111111112''"

definition otherKey :: jsstring where
  "otherKey = jstr ''11111111111111111111111111111113''"

definition zeroSignature :: jsstring where
  "zeroSignature = replicate 64 0x31"

text \<open>A decoder that reads back the canonical message of one key and window start.\<close>

definition decodeFor :: "jsstring \<Rightarrow> int \<Rightarrow> bytes \<Rightarrow> (jsstring \<times> int) option" where
  "decodeFor pk ws msg =
     (if Inr msg = serializeCanonical
                     \<lparr>CanonicalMessageParts.pubkey = Some pk,
                      CanonicalMessageParts.windowStart = Some ws\<rparr>
        then Some (pk, ws)
      else None)"

text \<open>The canonical message of \<open>otherKey\<close> at window start 1759737720000.\<close>

definition otherMessage :: bytes where
  "otherMessage =
     TextEncoder_encode
       (jstr ''{\"id\":\"actioncodes\",\"ver\":1,\"pubkey\":\"11111111111111111111111111111113\",\"windowStart\":1759737720000}'')"

text \<open>A library in which every Ed25519 check gives \<open>ok\<close>.\<close>

definition exampleLib :: "bool \<Rightarrow> CryptoLib" where
  "exampleLib ok =
     \<lparr>bs58_decode = base58Decode,
      PublicKey_toBytes = publicKeyBytes,
      ed25519_verify = (\<lambda>msg sig pub. ok),
      codeHashFn = (\<lambda>c. jstr ''H'' @ c),
      hmacSha256 = (\<lambda>k m. replicate 32 7),
      decodeCanonical = decodeFor delegatedKey 1759737720000\<rparr>"

definition exampleConfig :: CodeGenerationConfig where
  "exampleConfig = \<lparr>codeLength = 8, ttlMs = 120000, clockSkewMs = None\<rparr>"

definition exampleProof :: DelegationProof where
  "exampleProof =
     \<lparr>walletPubkey = Some walletKey,
      delegatedPubkey = Some delegatedKey,
      expiresAt = Some 1759741320000,
      chain = Some (jstr ''solana''),
      signature = Some zeroSignature\<rparr>"

definition exampleCode :: ActionCode where
  "exampleCode =
     \<lparr>ActionCode.chain = jstr ''solana'',
      code = jstr ''12345678'',
      pubkey = Some delegatedKey,
      timestamp = Some 1759737720000,
      expiresAt = 1759737840000,
      signature = Some zeroSignature\<rparr>"

definition exampleDelegatedCode :: DelegatedActionCode where
  "exampleDelegatedCode =
     ActionCode.extend exampleCode (DelegatedActionCode.fields (Some exampleProof))"

text \<open>
  A versioned transaction with one required signature, one static account key, no
  instruction and a signature of 64 bytes 1; the same transaction carrying the example meta
  in a memo; and a transaction library that knows the two by name.
\<close>

definition exampleMetaString :: jsstring where
  "exampleMetaString =
     jstr ''actioncodes:ver=2&id=H12345678&int=11111111111111111111111111111112''"

definition exampleMeta :: ProtocolMetaFields where
  "exampleMeta =
     \<lparr>ver = 2, id' = jstr ''H12345678'', int' = delegatedKey, iss = None, p' = None\<rparr>"

definition exampleMessage :: MessageV0 where
  "exampleMessage =
     \<lparr>header = \<lparr>numRequiredSignatures = 1, numReadonlySignedAccounts = 0,
                numReadonlyUnsignedAccounts = 0\<rparr>,
      staticAccountKeys = [replicate 31 0 @ [1]],
      recentBlockhash = jstr ''11111111111111111111111111111111'',
      compiledInstructions = [],
      addressTableLookups = []\<rparr>"

definition exampleTx :: VersionedTransaction where
  "exampleTx = \<lparr>message = V0 exampleMessage, signatures = [replicate 64 1]\<rparr>"

definition exampleMessageWithMeta :: MessageV0 where
  "exampleMessageWithMeta =
     exampleMessage
       \<lparr>staticAccountKeys := [replicate 31 0 @ [1], MEMO_PROGRAM_ID],
        compiledInstructions :=
          [\<lparr>programIdIndex = 1, accountKeyIndexes = [],
            data = map ucast exampleMetaString\<rparr>]\<rparr>"

definition exampleTxWithMeta :: VersionedTransaction where
  "exampleTxWithMeta = \<lparr>message = V0 exampleMessageWithMeta, signatures = [replicate 64 0]\<rparr>"

definition exampleTxLib :: TxLib where
  "exampleTxLib =
     \<lparr>VersionedTransaction_deserialize =
        (\<lambda>s. if s = jstr ''tx'' then Some exampleTx
             else if s = jstr ''tx-with-meta'' then Some exampleTxWithMeta
             else None),
      Transaction_from = (\<lambda>s. None),
      VersionedTransaction_serialize = (\<lambda>tx. Some (jstr ''serialized'')),
      Transaction_serialize = (\<lambda>tx. Some (jstr ''serialized'')),
      TextDecoder_decode = map ucast,
      parseProtocolMeta = (\<lambda>s. if s = exampleMetaString then Some exampleMeta else None),
      buildProtocolMeta = (\<lambda>m. Inr exampleMetaString),
      decompile = (\<lambda>msg tables. None),
      compileToV0Message = (\<lambda>msg tables. None)\<rparr>"

section \<open>Facts about the example values\<close>

lemma publicKeyBytes_walletKey: "publicKeyBytes walletKey = Some (replicate 32 0)"
  by code_simp

lemma publicKeyBytes_delegatedKey: "publicKeyBytes delegatedKey = Some (replicate 31 0 @ [1])"
  by code_simp

lemma base58Decode_delegatedKey: "base58Decode delegatedKey = Some (replicate 31 0 @ [1])"
  by code_simp

lemma base58Decode_zeroSignature: "base58Decode zeroSignature = Some (replicate 64 0)"
  by code_simp

lemma example_safe:
  "\<not> hasUnsafeChars walletKey" "\<not> hasUnsafeChars delegatedKey" "\<not> hasUnsafeChars otherKey"
  "\<not> hasUnsafeChars (jstr ''solana'')"
  by (simp_all add: hasUnsafeChars_def unsafeUnit_def jstr_def walletKey_def delegatedKey_def
        otherKey_def)

lemma example_lengths:
  "length walletKey = 32" "length delegatedKey = 32" "length otherKey = 32"
  "length zeroSignature = 64" "length (jstr ''solana'') = 6"
  by (simp_all add: walletKey_def delegatedKey_def otherKey_def zeroSignature_def jstr_def)

lemma example_nonempty:
  "walletKey \<noteq> []" "delegatedKey \<noteq> []" "otherKey \<noteq> []" "zeroSignature \<noteq> []"
  "jstr ''solana'' \<noteq> []"
  by (simp_all add: walletKey_def delegatedKey_def otherKey_def zeroSignature_def jstr_def)

lemma example_distinct: "otherKey \<noteq> delegatedKey" "delegatedKey \<noteq> otherKey"
  by (simp_all add: delegatedKey_def otherKey_def jstr_def)

lemma chainChar_solana: "list_all chainChar (jstr ''solana'')"
  by (simp add: chainChar_def jstr_def)

lemma exampleLib_sel:
  "bs58_decode (exampleLib ok) = base58Decode"
  "PublicKey_toBytes (exampleLib ok) = publicKeyBytes"
  "ed25519_verify (exampleLib ok) = (\<lambda>msg sig pub. ok)"
  "codeHashFn (exampleLib ok) = (\<lambda>c. jstr ''H'' @ c)"
  "hmacSha256 (exampleLib ok) = (\<lambda>k m. replicate 32 7)"
  "decodeCanonical (exampleLib ok) = decodeFor delegatedKey 1759737720000"
  by (simp_all add: exampleLib_def)

lemma exampleProof_sel:
  "walletPubkey exampleProof = Some walletKey"
  "delegatedPubkey exampleProof = Some delegatedKey"
  "DelegationProof.expiresAt exampleProof = Some 1759741320000"
  "DelegationProof.chain exampleProof = Some (jstr ''solana'')"
  "DelegationProof.signature exampleProof = Some zeroSignature"
  by (simp_all add: exampleProof_def)

lemma exampleCode_sel:
  "ActionCode.chain exampleCode = jstr ''solana''"
  "code exampleCode = jstr ''12345678''"
  "ActionCode.pubkey exampleCode = Some delegatedKey"
  "timestamp exampleCode = Some 1759737720000"
  "ActionCode.expiresAt exampleCode = 1759737840000"
  "ActionCode.signature exampleCode = Some zeroSignature"
  by (simp_all add: exampleCode_def)

lemma exampleDelegatedCode_sel:
  "ActionCode.chain exampleDelegatedCode = jstr ''solana''"
  "code exampleDelegatedCode = jstr ''12345678''"
  "ActionCode.pubkey exampleDelegatedCode = Some delegatedKey"
  "timestamp exampleDelegatedCode = Some 1759737720000"
  "ActionCode.expiresAt exampleDelegatedCode = 1759737840000"
  "ActionCode.signature exampleDelegatedCode = Some zeroSignature"
  "delegationProof exampleDelegatedCode = Some exampleProof"
  by (simp_all add: exampleDelegatedCode_def exampleCode_def ActionCode.extend_def
        DelegatedActionCode.fields_def)

lemmas example_facts =
  publicKeyBytes_walletKey publicKeyBytes_delegatedKey base58Decode_delegatedKey
  base58Decode_zeroSignature example_safe example_lengths example_nonempty example_distinct
  chainChar_solana exampleLib_sel exampleProof_sel exampleCode_sel exampleDelegatedCode_sel

section \<open>Numbers as text\<close>

text \<open>
  A safe integer (magnitude below \<open>2^53\<close>) is a double, and \<open>Number::toString\<close> prints its
  decimal numeral.
\<close>

lemma bitLength_le: "v < 2 ^ k \<Longrightarrow> bitLength v \<le> k"
proof (induction k arbitrary: v)
  case 0
  then show ?case by (simp add: bitLength.simps)
next
  case (Suc k)
  show ?case
  proof (cases "v = 0")
    case True
    then show ?thesis by (simp add: bitLength.simps)
  next
    case False
    from Suc.prems have "v div 2 < 2 ^ k" by simp
    from Suc.IH [OF this] False show ?thesis
      by (subst bitLength.simps) simp
  qed
qed

lemma bitLength_lower: "0 < v \<Longrightarrow> 2 ^ (bitLength v - 1) \<le> v"
proof (induction v rule: bitLength.induct)
  case (1 n)
  show ?case
  proof (cases "n div 2 = 0")
    case True
    with 1 have "n = 1" by (simp add: div_eq_0_iff)
    then show ?thesis by (simp add: bitLength.simps)
  next
    case False
    with 1 have ih: "2 ^ (bitLength (n div 2) - 1) \<le> n div 2" by simp
    from False have pos: "0 < bitLength (n div 2)"
      by (subst bitLength.simps) simp
    from 1(2) have "bitLength n = Suc (bitLength (n div 2))"
      by (subst bitLength.simps) simp
    then have "(2::nat) ^ (bitLength n - 1) = 2 * 2 ^ (bitLength (n div 2) - 1)"
      using pos by (cases "bitLength (n div 2)") simp_all
    with ih show ?thesis by simp
  qed
qed

lemma roundToDouble_safe: "v < 2 ^ 53 \<Longrightarrow> roundToDouble v = v"
  using bitLength_le [of v 53] by (simp add: roundToDouble_def)

lemma roundToDouble_floor: "(v div 2 ^ (bitLength v - 53)) * 2 ^ (bitLength v - 53) \<le> roundToDouble v"
  by (simp add: roundToDouble_def Let_def)

lemma bitLength_upper: "v < 2 ^ bitLength v"
proof (induction v rule: bitLength.induct)
  case (1 n)
  show ?case
  proof (cases "n = 0")
    case True
    then show ?thesis by simp
  next
    case False
    with 1 have "n div 2 < 2 ^ bitLength (n div 2)" by simp
    moreover from False have "bitLength n = Suc (bitLength (n div 2))"
      by (subst bitLength.simps) simp
    ultimately show ?thesis by simp
  qed
qed

lemma roundToDouble_large:
  assumes "2 ^ 53 \<le> v"
  shows "2 ^ 53 \<le> roundToDouble v"
proof -
  let ?b = "bitLength v"
  let ?u = "(2::nat) ^ (?b - 53)"
  from assms have pos: "0 < v"
    by (cases "v = 0") simp_all
  have "(2::nat) ^ 53 < 2 ^ ?b"
    using assms bitLength_upper [of v] by (rule le_less_trans)
  then have b: "53 < ?b"
    by (rule power_less_imp_less_exp [rotated]) simp
  then have split: "(2::nat) ^ (?b - 1) = 2 ^ 52 * ?u"
    by (simp only: power_add [symmetric]) simp
  have "2 ^ 52 * ?u \<le> v"
    using bitLength_lower [OF pos] by (simp only: split)
  then have "(2 ^ 52 * ?u) div ?u \<le> v div ?u" by (rule div_le_mono)
  then have "2 ^ 52 \<le> v div ?u" by simp
  then have "2 ^ 52 * ?u \<le> (v div ?u) * ?u" by (rule mult_le_mono1)
  also have "\<dots> \<le> roundToDouble v" by (rule roundToDouble_floor)
  finally have "2 ^ 52 * ?u \<le> roundToDouble v" .
  moreover have "(2::nat) ^ 53 \<le> 2 ^ (?b - 1)"
    using b by (intro power_increasing) auto
  ultimately show ?thesis by (simp only: split)
qed

lemma roundToDouble_eq_safe:
  assumes "roundToDouble y = x" and "x < 2 ^ 53"
  shows "y = x"
proof (cases "y < 2 ^ 53")
  case True
  with assms(1) show ?thesis by (simp add: roundToDouble_safe)
next
  case False
  then have "2 ^ 53 \<le> y" by simp
  then have "2 ^ 53 \<le> roundToDouble y" by (rule roundToDouble_large)
  with assms show ?thesis by simp
qed

lemma candidate_Some:
  "candidate x m = Some s \<Longrightarrow> 0 < s \<and> roundToDouble (s * 10 ^ m) = x"
  by (auto simp: candidate_def Let_def split: if_splits)

lemma shortest_value:
  "shortest x m = (s, k) \<Longrightarrow> (s = x \<and> k = 0) \<or> (0 < s \<and> roundToDouble (s * 10 ^ k) = x)"
proof (induction m)
  case 0
  then show ?case by simp
next
  case (Suc m)
  then show ?case
    by (cases "candidate x (Suc m)") (auto dest: candidate_Some)
qed

lemma digits_times_10: "0 < s \<Longrightarrow> digits (s * 10) = digits s @ [0x30]"
  by (subst digits.simps) simp

lemma digits_shift: "0 < s \<Longrightarrow> digits (s * 10 ^ k) = digits s @ replicate k 0x30"
proof (induction k)
  case 0
  then show ?case by simp
next
  case (Suc k)
  have "digits (s * 10 ^ Suc k) = digits ((s * 10 ^ k) * 10)"
    by (simp add: ac_simps)
  also have "\<dots> = digits (s * 10 ^ k) @ [0x30]"
    using Suc.prems by (intro digits_times_10) simp
  finally show ?case
    using Suc by (simp add: replicate_append_same)
qed

lemma length_digits: "0 < k \<Longrightarrow> x < 10 ^ k \<Longrightarrow> length (digits x) \<le> k"
proof (induction k arbitrary: x)
  case 0
  then show ?case by simp
next
  case (Suc k)
  show ?case
  proof (cases "x < 10")
    case True
    then show ?thesis by (subst digits.simps) simp
  next
    case False
    then have k: "0 < k" using Suc.prems by (cases k) simp_all
    from Suc.prems have "x div 10 < 10 ^ k" by simp
    from Suc.IH [OF k this] False show ?thesis
      by (subst digits.simps) simp
  qed
qed

lemma render_safe:
  assumes "x < 2 ^ 53" and "shortest x m = (s, k)"
  shows "render s k = digits x"
proof -
  have len: "length (digits x) \<le> 16"
    using assms(1) by (intro length_digits) simp_all
  from shortest_value [OF assms(2)] show ?thesis
  proof
    assume "s = x \<and> k = 0"
    with len show ?thesis by (simp add: render_def)
  next
    assume a: "0 < s \<and> roundToDouble (s * 10 ^ k) = x"
    then have eq: "s * 10 ^ k = x"
      using assms(1) by (auto intro: roundToDouble_eq_safe)
    from a have "digits x = digits s @ replicate k 0x30"
      unfolding eq [symmetric] by (intro digits_shift) simp
    with len show ?thesis by (simp add: render_def)
  qed
qed

lemma NumberToString_safe:
  assumes "\<bar>n\<bar> < 2 ^ 53"
  shows "NumberToString n = decimal n"
proof -
  define x where "x = nat \<bar>n\<bar>"
  from assms have safe: "x < 2 ^ 53" by (simp add: x_def)
  then have r: "roundToDouble x = x" by (rule roundToDouble_safe)
  obtain s k where sk: "shortest x (length (digits x) - 1) = (s, k)"
    by (cases "shortest x (length (digits x) - 1)")
  from render_safe [OF safe sk] have d: "render s k = digits x" .
  have "NumberToString n = (if n < 0 then [0x2D] else []) @ render s k"
    unfolding NumberToString_def x_def [symmetric] using sk by (simp add: r)
  also have "\<dots> = (if n < 0 then [0x2D] else []) @ digits x"
    by (simp only: d)
  also have "\<dots> = decimal n"
    by (simp add: decimal_def x_def)
  finally show ?thesis .
qed

lemma NumberToString_example: "NumberToString 1759737720000 = jstr ''1759737720000''"
  by (simp add: NumberToString_safe decimal_def digits.simps jstr_def)

lemma bitLength_unique:
  assumes "2 ^ b \<le> n" and "n < 2 ^ Suc b"
  shows "bitLength n = Suc b"
proof -
  from assms(1) have pos: "0 < n"
    by (cases "n = 0") simp_all
  have "(2::nat) ^ b < 2 ^ bitLength n"
    using assms(1) bitLength_upper [of n] by (rule le_less_trans)
  then have lower: "b < bitLength n"
    by (rule power_less_imp_less_exp [rotated]) simp
  have "(2::nat) ^ (bitLength n - 1) < 2 ^ Suc b"
    using bitLength_lower [OF pos] assms(2) by (rule le_less_trans)
  then have "bitLength n - 1 < Suc b"
    by (rule power_less_imp_less_exp [rotated]) simp
  with lower show ?thesis by simp
qed

lemma roundToDouble_binade:
  assumes "2 ^ b \<le> y" and "y < 2 ^ Suc b"
  shows "roundToDouble y =
           (let u = 2 ^ (Suc b - 53); q = y div u; r = y mod u
            in if 2 * r < u \<or> (2 * r = u \<and> even q) then q * u else (q + 1) * u)"
  unfolding roundToDouble_def bitLength_unique [OF assms] ..

lemma shortest_numeral:
  "shortest x (numeral k) =
     (case candidate x (numeral k) of
        Some s \<Rightarrow> (s, numeral k)
      | None \<Rightarrow> shortest x (pred_numeral k))"
proof -
  have "shortest x (Suc (pred_numeral k)) =
          (case candidate x (Suc (pred_numeral k)) of
             Some s \<Rightarrow> (s, Suc (pred_numeral k))
           | None \<Rightarrow> shortest x (pred_numeral k))"
    by simp
  then show ?thesis
    by (simp only: numeral_eq_Suc [symmetric])
qed

text \<open>
  Beyond the safe integers the digits are not those of the value: \<open>2^69\<close> is
  590295810358705651712 and is printed as 590295810358705700000.
\<close>

lemma NumberToString_large_example:
  "NumberToString (2 ^ 69) = jstr ''590295810358705700000''"
proof -
  let ?x = "590295810358705651712 :: nat"
  have lo: "roundToDouble y =
              (let q = y div 65536; r = y mod 65536
               in if 2 * r < 65536 \<or> (2 * r = 65536 \<and> even q) then q * 65536
                  else (q + 1) * 65536)"
    if "295147905179352825856 \<le> y" and "y < 590295810358705651712" for y
    using roundToDouble_binade [of 68 y] that by simp
  have hi: "roundToDouble y =
              (let q = y div 131072; r = y mod 131072
               in if 2 * r < 131072 \<or> (2 * r = 131072 \<and> even q) then q * 131072
                  else (q + 1) * 131072)"
    if "590295810358705651712 \<le> y" and "y < 1180591620717411303424" for y
    using roundToDouble_binade [of 69 y] that by simp
  have x: "roundToDouble ?x = ?x"
    by (simp add: hi)
  have len: "length (digits ?x) = 21"
    by (simp add: digits.simps)
  have none: "candidate ?x 20 = None" "candidate ?x 19 = None" "candidate ?x 18 = None"
    "candidate ?x 17 = None" "candidate ?x 16 = None" "candidate ?x 15 = None"
    "candidate ?x 14 = None" "candidate ?x 13 = None" "candidate ?x 12 = None"
    "candidate ?x 11 = None" "candidate ?x 10 = None" "candidate ?x 9 = None"
    "candidate ?x 8 = None" "candidate ?x 7 = None" "candidate ?x 6 = None"
    by (simp_all add: candidate_def lo hi)
  have some: "candidate ?x 5 = Some 5902958103587057"
    by (simp add: candidate_def lo hi)
  have s: "shortest ?x 20 = (5902958103587057, 5)"
    by (simp add: shortest_numeral none some)
  have z: "replicate 5 (0x30 :: unit16) = [0x30, 0x30, 0x30, 0x30, 0x30]"
    by (simp add: numeral_eq_Suc)
  have r: "render 5902958103587057 5 = jstr ''590295810358705700000''"
    by (simp add: render_def digits.simps jstr_def z)
  show ?thesis
    by (simp add: NumberToString_def x len s r)
qed

section \<open>Canonical serialization\<close>

lemma quoteUnit_safe: "\<not> unsafeUnit c \<Longrightarrow> \<not> isSurrogate c \<Longrightarrow> quoteUnit c = [c]"
  by (auto simp: quoteUnit_def unsafeUnit_def word_le_nat_alt word_less_nat_alt)

lemma quoteUnits_safe:
  "wellFormedUTF16 s \<Longrightarrow> \<not> list_ex unsafeUnit s \<Longrightarrow> quoteUnits s = s"
  by (induction s rule: quoteUnits.induct) (auto simp: quoteUnit_safe split: if_splits)

lemma QuoteJSONString_safe:
  "wellFormedUTF16 s \<Longrightarrow> \<not> hasUnsafeChars s \<Longrightarrow> QuoteJSONString s = 0x22 # s @ [0x22]"
  by (simp add: QuoteJSONString_def hasUnsafeChars_def quoteUnits_safe)

lemma QuoteJSONString_keys:
  "QuoteJSONString (jstr ''id'') = jstr ''\"id\"''"
  "QuoteJSONString (jstr ''ver'') = jstr ''\"ver\"''"
  "QuoteJSONString (jstr ''pubkey'') = jstr ''\"pubkey\"''"
  "QuoteJSONString (jstr ''windowStart'') = jstr ''\"windowStart\"''"
  "QuoteJSONString (jstr ''actioncodes'') = jstr ''\"actioncodes\"''"
  by (simp_all add: QuoteJSONString_def quoteUnit_def jstr_def isLeadingSurrogate_def
        isTrailingSurrogate_def isSurrogate_def)

lemma canonical_text:
  assumes "wellFormedUTF16 P" and "\<not> hasUnsafeChars P"
  shows "JSON_stringify
           [(''id'', JString CANONICAL_MESSAGE_PREFIX),
            (''ver'', JNumber CANONICAL_MESSAGE_VERSION),
            (''pubkey'', JString P),
            (''windowStart'', JNumber T)]
         = jstr ''{\"id\":\"actioncodes\",\"ver\":1,\"pubkey\":\"'' @ P
           @ jstr ''\",\"windowStart\":'' @ NumberToString T @ jstr ''}''"
proof -
  have one: "NumberToString 1 = jstr ''1''"
    by (simp add: NumberToString_safe decimal_def digits.simps jstr_def)
  show ?thesis
    using assms
    by (simp add: JSON_stringify_def List.map_filter_def QuoteJSONString_keys
          QuoteJSONString_safe CANONICAL_MESSAGE_PREFIX_def CANONICAL_MESSAGE_VERSION_def one)
      (simp add: jstr_def)
qed

text \<open>
  Claim C1. For a pubkey \<open>P\<close> that is non-empty, at most 100 code units long and free of
  double quotes, backslashes and C0/C1 control characters, and a window start \<open>T\<close>,
  \<open>serializeCanonical\<close> returns the UTF-8 bytes of the text
  \<open>{"id":"actioncodes","ver":1,"pubkey":"P","windowStart":T}\<close>, keys in that order, \<open>P\<close>
  appearing as it is and \<open>T\<close> as its decimal numeral; for a \<open>P\<close> that is empty, longer than
  100 or has one of those characters it throws \<open>INVALID_INPUT\<close>. Strings are well-formed
  UTF-16 (string fields are UTF-8 text), and \<open>T\<close> is a safe integer, of magnitude at most
  \<open>2^53 - 1\<close>, as timestamps in milliseconds are: beyond, a number is printed with the
  shortest digits that read back as the same double, not with the digits of its value.
\<close>

theorem serializeCanonical_bytes:
  assumes "wellFormedUTF16 P" and "\<bar>T\<bar> < 2 ^ 53"
  shows "(P \<noteq> [] \<and> length P \<le> 100 \<and> \<not> hasUnsafeChars P \<longrightarrow>
            serializeCanonical \<lparr>CanonicalMessageParts.pubkey = Some P,
                                CanonicalMessageParts.windowStart = Some T\<rparr>
            = Inr (TextEncoder_encode
                     (jstr ''{\"id\":\"actioncodes\",\"ver\":1,\"pubkey\":\"'' @ P
                      @ jstr ''\",\"windowStart\":'' @ decimal T @ jstr ''}'')))
       \<and> (P = [] \<or> length P > 100 \<or> hasUnsafeChars P \<longrightarrow>
            serializeCanonical \<lparr>CanonicalMessageParts.pubkey = Some P,
                                CanonicalMessageParts.windowStart = Some T\<rparr>
            = Inl (ProtocolError INVALID_INPUT ''pubkey''))"
proof -
  from assms(2) have "NumberToString T = decimal T"
    by (rule NumberToString_safe)
  with assms(1) show ?thesis
    by (auto simp: serializeCanonical_def canonical_text invalidInput_def)
qed

text \<open>
  The bytes for the pubkey \<open>A\<close>, U+00E9, U+20AC, U+1F600 (one, two, three and four bytes of
  UTF-8) at window start 1759737720000, and the error for the empty pubkey.
\<close>

theorem serializeCanonical_bytes_witness:
  "serializeCanonical \<lparr>CanonicalMessageParts.pubkey = Some [0x41, 0xE9, 0x20AC, 0xD83D, 0xDE00],
                       CanonicalMessageParts.windowStart = Some 1759737720000\<rparr>
   = Inr
      [0x7B, 0x22, 0x69, 0x64, 0x22, 0x3A, 0x22, 0x61, 0x63, 0x74, 0x69, 0x6F, 0x6E, 0x63,
       0x6F, 0x64, 0x65, 0x73, 0x22, 0x2C, 0x22, 0x76, 0x65, 0x72, 0x22, 0x3A, 0x31, 0x2C,
       0x22, 0x70, 0x75, 0x62, 0x6B, 0x65, 0x79, 0x22, 0x3A, 0x22, 0x41, 0xC3, 0xA9, 0xE2,
       0x82, 0xAC, 0xF0, 0x9F, 0x98, 0x80, 0x22, 0x2C, 0x22, 0x77, 0x69, 0x6E, 0x64, 0x6F,
       0x77, 0x53, 0x74, 0x61, 0x72, 0x74, 0x22, 0x3A, 0x31, 0x37, 0x35, 0x39, 0x37, 0x33,
       0x37, 0x37, 0x32, 0x30, 0x30, 0x30, 0x30, 0x7D]
   \<and> serializeCanonical \<lparr>CanonicalMessageParts.pubkey = Some [],
                          CanonicalMessageParts.windowStart = Some 1759737720000\<rparr>
     = Inl (ProtocolError INVALID_INPUT ''pubkey'')"
proof -
  let ?P = "[0x41, 0xE9, 0x20AC, 0xD83D, 0xDE00] :: jsstring"
  have wf: "wellFormedUTF16 ?P"
    by (simp add: isSurrogate_def isLeadingSurrogate_def isTrailingSurrogate_def)
  have wf0: "wellFormedUTF16 []"
    by simp
  have t: "\<bar>1759737720000 :: int\<bar> < 2 ^ 53"
    by simp
  have safe: "\<not> hasUnsafeChars ?P"
    by (simp add: hasUnsafeChars_def unsafeUnit_def)
  have n: "decimal 1759737720000 = jstr ''1759737720000''"
    by (simp add: decimal_def digits.simps jstr_def)
  have enc: "TextEncoder_encode
               (jstr ''{\"id\":\"actioncodes\",\"ver\":1,\"pubkey\":\"'' @ ?P
                @ jstr ''\",\"windowStart\":'' @ jstr ''1759737720000'' @ jstr ''}'')
             =
      [0x7B, 0x22, 0x69, 0x64, 0x22, 0x3A, 0x22, 0x61, 0x63, 0x74, 0x69, 0x6F, 0x6E, 0x63,
       0x6F, 0x64, 0x65, 0x73, 0x22, 0x2C, 0x22, 0x76, 0x65, 0x72, 0x22, 0x3A, 0x31, 0x2C,
       0x22, 0x70, 0x75, 0x62, 0x6B, 0x65, 0x79, 0x22, 0x3A, 0x22, 0x41, 0xC3, 0xA9, 0xE2,
       0x82, 0xAC, 0xF0, 0x9F, 0x98, 0x80, 0x22, 0x2C, 0x22, 0x77, 0x69, 0x6E, 0x64, 0x6F,
       0x77, 0x53, 0x74, 0x61, 0x72, 0x74, 0x22, 0x3A, 0x31, 0x37, 0x35, 0x39, 0x37, 0x33,
       0x37, 0x37, 0x32, 0x30, 0x30, 0x30, 0x30, 0x7D]"
    by (simp add: jstr_def encodeUnit_def utf8_2_def utf8_3_def utf8_4_def pairCodePoint_def
          isSurrogate_def isLeadingSurrogate_def isTrailingSurrogate_def)
  from serializeCanonical_bytes [OF wf t] safe
  have one: "serializeCanonical \<lparr>CanonicalMessageParts.pubkey = Some ?P,
                                  CanonicalMessageParts.windowStart = Some 1759737720000\<rparr>
             = Inr (TextEncoder_encode
                      (jstr ''{\"id\":\"actioncodes\",\"ver\":1,\"pubkey\":\"'' @ ?P
                       @ jstr ''\",\"windowStart\":'' @ jstr ''1759737720000'' @ jstr ''}''))"
    by (simp add: n)
  from serializeCanonical_bytes [OF wf0 t]
  have two: "serializeCanonical \<lparr>CanonicalMessageParts.pubkey = Some [],
                                  CanonicalMessageParts.windowStart = Some 1759737720000\<rparr>
             = Inl (ProtocolError INVALID_INPUT ''pubkey'')"
    by simp
  from one two show ?thesis
    by (simp only: enc)
qed

section \<open>Binding a transaction to an action code\<close>

lemma exampleTxLib_sel:
  "VersionedTransaction_deserialize exampleTxLib =
     (\<lambda>s. if s = jstr ''tx'' then Some exampleTx
          else if s = jstr ''tx-with-meta'' then Some exampleTxWithMeta
          else None)"
  "Transaction_from exampleTxLib = (\<lambda>s. None)"
  "VersionedTransaction_serialize exampleTxLib = (\<lambda>tx. Some (jstr ''serialized''))"
  "Transaction_serialize exampleTxLib = (\<lambda>tx. Some (jstr ''serialized''))"
  "TextDecoder_decode exampleTxLib = map ucast"
  "parseProtocolMeta exampleTxLib =
     (\<lambda>s. if s = exampleMetaString then Some exampleMeta else None)"
  "buildProtocolMeta exampleTxLib = (\<lambda>m. Inr exampleMetaString)"
  by (simp_all add: exampleTxLib_def)

lemma decode_exampleMetaString:
  "map ((ucast :: 8 word \<Rightarrow> 16 word) \<circ> ucast) exampleMetaString = exampleMetaString"
  by (simp add: exampleMetaString_def jstr_def)

lemma exampleMetaString_nonempty: "exampleMetaString \<noteq> []"
  by (simp add: exampleMetaString_def jstr_def)

lemma tx_names: "jstr ''tx-with-meta'' \<noteq> jstr ''tx''"
  by (simp add: jstr_def)

lemma getProtocolMeta_example_with_meta:
  "getProtocolMeta exampleTxLib (jstr ''tx-with-meta'') = Some exampleMetaString"
  by (simp add: getProtocolMeta_def deserializeTransaction_def exampleTxLib_sel tx_names
        exampleTxWithMeta_def exampleMessageWithMeta_def exampleMessage_def
        getMemoInstructions_def memoInstructionsOf_def List.map_filter_def at_def
        decode_exampleMetaString Let_def)

lemma parseMeta_example_with_meta:
  "parseMeta exampleTxLib (jstr ''tx-with-meta'') = Some exampleMeta"
  by (simp add: parseMeta_def getProtocolMeta_example_with_meta exampleMetaString_nonempty
        exampleTxLib_sel)


text \<open>
  Claim C2. \<open>verifyTransactionMatchesCode\<close> returns without error exactly when the
  transaction carries a protocol meta \<open>m\<close> with \<open>m.ver = 2\<close>,
  \<open>m.id = codeHash(a.code)\<close>, \<open>m.int = a.pubkey\<close>, and \<open>now \<le> a.expiresAt\<close>. Otherwise it
  throws \<open>EXPIRED_CODE\<close> when \<open>now > a.expiresAt\<close>; else \<open>MISSING_META\<close> when no meta can be
  parsed; else \<open>META_MISMATCH\<close> naming the first of \<open>ver\<close>, \<open>id\<close>, \<open>int\<close> that differs.
\<close>

theorem verifyTransactionMatchesCode_iff:
  "(verifyTransactionMatchesCode T L now a tx = Inr () \<longleftrightarrow>
      (\<exists>m. parseMeta T tx = Some m \<and> ver m = 2 \<and> id' m = codeHashFn L (code a)
           \<and> Some (int' m) = ActionCode.pubkey a)
      \<and> now \<le> ActionCode.expiresAt a)
   \<and> (now > ActionCode.expiresAt a \<longrightarrow>
        (\<exists>d. verifyTransactionMatchesCode T L now a tx = Inl (ProtocolError EXPIRED_CODE d)))
   \<and> (now \<le> ActionCode.expiresAt a \<and> parseMeta T tx = None \<longrightarrow>
        (\<exists>d. verifyTransactionMatchesCode T L now a tx = Inl (ProtocolError MISSING_META d)))
   \<and> (\<forall>m. now \<le> ActionCode.expiresAt a \<and> parseMeta T tx = Some m \<longrightarrow>
        verifyTransactionMatchesCode T L now a tx =
          (if ver m \<noteq> 2 then Inl (ProtocolError META_MISMATCH ''ver'')
           else if id' m \<noteq> codeHashFn L (code a) then Inl (ProtocolError META_MISMATCH ''id'')
           else if Some (int' m) \<noteq> ActionCode.pubkey a
             then Inl (ProtocolError META_MISMATCH ''int'')
           else Inr ()))"
  by (auto simp: verifyTransactionMatchesCode_def expiredCode_def missingMeta_def
        metaMismatch_def split: option.splits)

theorem verifyTransactionMatchesCode_iff_witness:
  "verifyTransactionMatchesCode exampleTxLib (exampleLib True) 1759737721000 exampleCode
     (jstr ''tx-with-meta'') = Inr ()
   \<and> verifyTransactionMatchesCode exampleTxLib (exampleLib True) 1759737721000
       (exampleCode\<lparr>code := jstr ''87654321''\<rparr>) (jstr ''tx-with-meta'')
     = Inl (ProtocolError META_MISMATCH ''id'')"
proof -
  have m: "parseMeta exampleTxLib (jstr ''tx-with-meta'') = Some exampleMeta"
    by (rule parseMeta_example_with_meta)
  have ne: "jstr ''H12345678'' \<noteq> jstr ''H87654321''"
    by (simp add: jstr_def)
  have h: "jstr ''H'' @ jstr ''12345678'' = jstr ''H12345678''"
          "jstr ''H'' @ jstr ''87654321'' = jstr ''H87654321''"
    by (simp_all add: jstr_def)
  show ?thesis
    using verifyTransactionMatchesCode_iff
            [of exampleTxLib "exampleLib True" 1759737721000 exampleCode "jstr ''tx-with-meta''"]
          verifyTransactionMatchesCode_iff
            [of exampleTxLib "exampleLib True" 1759737721000
                "exampleCode\<lparr>code := jstr ''87654321''\<rparr>" "jstr ''tx-with-meta''"]
    by (simp add: m exampleMeta_def example_facts ne h)
qed

section \<open>The delegation strategy\<close>

lemma validateDelegationProof_example:
  "validateDelegationProof (exampleLib ok) 1759737721000 exampleProof = Inr ()"
  by (simp add: validateDelegationProof_def normalizePubkey_def maxFuture_def example_facts)

lemma keysAndChainAccepted_example: "keysAndChainAccepted (exampleLib ok) exampleProof"
  by (simp add: keysAndChainAccepted_def normalizePubkey_def example_facts)

lemma keysAndChainAccepted_update [simp]:
  "keysAndChainAccepted L (p\<lparr>DelegationProof.expiresAt := e\<rparr>) = keysAndChainAccepted L p"
  by (simp add: keysAndChainAccepted_def)

lemma maxFuture_pos: "0 < maxFuture"
  by (simp add: maxFuture_def)

lemma validateDelegationProof_Inr:
  "validateDelegationProof L now p = Inr () \<Longrightarrow>
     \<exists>e. DelegationProof.expiresAt p = Some e \<and> now \<le> e \<and> e \<le> now + maxFuture"
  by (auto simp: validateDelegationProof_def split: if_splits option.splits)

lemma validateDelegationProof_expiry_cases:
  assumes "keysAndChainAccepted L p" and "DelegationProof.expiresAt p = Some e" and "0 < e"
  shows "e > now + maxFuture \<Longrightarrow>
           validateDelegationProof L now p = Inl (ProtocolError INVALID_INPUT ''expiresAt'')"
    and "e < now \<Longrightarrow>
           validateDelegationProof L now p
             = Inl (ProtocolError EXPIRED_CODE ''Delegation proof has expired'')"
  using assms maxFuture_pos
  by (auto simp: validateDelegationProof_def keysAndChainAccepted_def invalidInput_def
        expiredCode_def split: option.splits)

lemma generateDelegatedCode_Inr:
  "generateDelegatedCode L cfg now p msg ch sg = Inr a \<Longrightarrow>
     validateDelegationProof L now p = Inr ()"
  by (auto simp: generateDelegatedCode_def split: sum.splits)

lemma validateDelegatedCode_Inr:
  "validateDelegatedCode L cfg now d = Inr () \<Longrightarrow>
     \<exists>q. delegationProof d = Some q \<and> validateDelegationProof L now q = Inr ()"
  by (auto simp: validateDelegatedCode_def split: if_splits option.splits sum.splits)

text \<open>
  Claim C8, as amended. Whenever a delegation proof is used, validation requires
  \<open>now \<le> proof.expiresAt \<le> now + 365 days\<close>: a proof that expires at this very millisecond
  is still accepted. For a proof whose keys and chain pass the earlier checks and whose
  \<open>expiresAt\<close> is a positive integer, \<open>expiresAt < now\<close> is rejected with \<open>EXPIRED_CODE\<close>
  and \<open>expiresAt > now + 365 days\<close> with \<open>INVALID_INPUT\<close>.
\<close>

theorem delegation_proof_expiry_window:
  "(validateDelegationProof L now p = Inr () \<longrightarrow>
      (\<exists>e. DelegationProof.expiresAt p = Some e \<and> now \<le> e \<and> e \<le> now + 31536000000))
   \<and> (generateDelegatedCode L cfg now p msg ch sg = Inr a \<longrightarrow>
      (\<exists>e. DelegationProof.expiresAt p = Some e \<and> now \<le> e \<and> e \<le> now + 31536000000))
   \<and> (validateDelegatedCode L cfg now d = Inr () \<longrightarrow>
      (\<exists>q e. delegationProof d = Some q \<and> DelegationProof.expiresAt q = Some e
             \<and> now \<le> e \<and> e \<le> now + 31536000000))
   \<and> (keysAndChainAccepted L p \<and> DelegationProof.expiresAt p = Some e \<and> 0 < e \<and> e < now \<longrightarrow>
        (\<exists>d. validateDelegationProof L now p = Inl (ProtocolError EXPIRED_CODE d)))
   \<and> (keysAndChainAccepted L p \<and> DelegationProof.expiresAt p = Some e \<and> 0 < e
        \<and> e > now + 31536000000 \<longrightarrow>
        (\<exists>f. validateDelegationProof L now p = Inl (ProtocolError INVALID_INPUT f)))
   \<and> (keysAndChainAccepted L p \<and> DelegationProof.expiresAt p = Some now \<and> 0 < now \<longrightarrow>
        (\<forall>f. validateDelegationProof L now p \<noteq> Inl (ProtocolError EXPIRED_CODE f)))"
proof -
  have mf: "maxFuture = 31536000000" by (simp add: maxFuture_def)
  have c1: "validateDelegationProof L now p = Inr () \<longrightarrow>
      (\<exists>e. DelegationProof.expiresAt p = Some e \<and> now \<le> e \<and> e \<le> now + 31536000000)"
    using validateDelegationProof_Inr [of L now p] by (simp add: mf)
  have c2: "generateDelegatedCode L cfg now p msg ch sg = Inr a \<longrightarrow>
      (\<exists>e. DelegationProof.expiresAt p = Some e \<and> now \<le> e \<and> e \<le> now + 31536000000)"
    using generateDelegatedCode_Inr [of L cfg now p msg ch sg a]
      validateDelegationProof_Inr [of L now p] by (auto simp: mf)
  have c3: "validateDelegatedCode L cfg now d = Inr () \<longrightarrow>
      (\<exists>q e. delegationProof d = Some q \<and> DelegationProof.expiresAt q = Some e
             \<and> now \<le> e \<and> e \<le> now + 31536000000)"
  proof
    assume "validateDelegatedCode L cfg now d = Inr ()"
    then obtain q where q: "delegationProof d = Some q"
        "validateDelegationProof L now q = Inr ()"
      using validateDelegatedCode_Inr by blast
    with validateDelegationProof_Inr [of L now q] show
      "\<exists>q e. delegationProof d = Some q \<and> DelegationProof.expiresAt q = Some e
             \<and> now \<le> e \<and> e \<le> now + 31536000000"
      by (auto simp: mf)
  qed
  have c4: "keysAndChainAccepted L p \<and> DelegationProof.expiresAt p = Some e \<and> 0 < e \<and> e < now
      \<longrightarrow> (\<exists>d. validateDelegationProof L now p = Inl (ProtocolError EXPIRED_CODE d))"
    using validateDelegationProof_expiry_cases(2) [of L p e now] by blast
  have c5: "keysAndChainAccepted L p \<and> DelegationProof.expiresAt p = Some e \<and> 0 < e
        \<and> e > now + 31536000000 \<longrightarrow>
        (\<exists>f. validateDelegationProof L now p = Inl (ProtocolError INVALID_INPUT f))"
    using validateDelegationProof_expiry_cases(1) [of L p e now] by (auto simp: mf)
  have c6: "keysAndChainAccepted L p \<and> DelegationProof.expiresAt p = Some now \<and> 0 < now \<longrightarrow>
        (\<forall>f. validateDelegationProof L now p \<noteq> Inl (ProtocolError EXPIRED_CODE f))"
    using maxFuture_pos
    by (auto simp: validateDelegationProof_def keysAndChainAccepted_def invalidInput_def
          expiredCode_def split: option.splits if_splits)
  from c1 c2 c3 c4 c5 c6 show ?thesis by blast
qed

theorem delegation_proof_expiry_window_witness:
  "validateDelegationProof (exampleLib True) 1759737721000 exampleProof = Inr ()
   \<and> (\<exists>e. DelegationProof.expiresAt exampleProof = Some e \<and> 1759737721000 \<le> e
          \<and> e \<le> 1759737721000 + 31536000000)
   \<and> (\<exists>d. validateDelegationProof (exampleLib True) 1759737721000
              (exampleProof\<lparr>DelegationProof.expiresAt := Some 1759737720000\<rparr>)
            = Inl (ProtocolError EXPIRED_CODE d))
   \<and> (\<exists>f. validateDelegationProof (exampleLib True) 1759737721000
              (exampleProof\<lparr>DelegationProof.expiresAt := Some 1859737720000\<rparr>)
            = Inl (ProtocolError INVALID_INPUT f))"
proof -
  have k: "keysAndChainAccepted (exampleLib True) exampleProof"
    by (rule keysAndChainAccepted_example)
  have a: "validateDelegationProof (exampleLib True) 1759737721000 exampleProof = Inr ()"
    by (rule validateDelegationProof_example)
  have b: "\<exists>e. DelegationProof.expiresAt exampleProof = Some e \<and> 1759737721000 \<le> e
          \<and> e \<le> 1759737721000 + 31536000000"
    using delegation_proof_expiry_window
            [of "exampleLib True" 1759737721000 exampleProof exampleConfig "[]" "[]" "[]"
                exampleDelegatedCode exampleDelegatedCode 1759741320000]
          a
    by blast
  have c: "\<exists>d. validateDelegationProof (exampleLib True) 1759737721000
              (exampleProof\<lparr>DelegationProof.expiresAt := Some 1759737720000\<rparr>)
            = Inl (ProtocolError EXPIRED_CODE d)"
    using delegation_proof_expiry_window
            [of "exampleLib True" 1759737721000
                "exampleProof\<lparr>DelegationProof.expiresAt := Some 1759737720000\<rparr>"
                exampleConfig "[]" "[]" "[]" exampleDelegatedCode exampleDelegatedCode
                1759737720000]
          k
    by simp
  have d: "\<exists>f. validateDelegationProof (exampleLib True) 1759737721000
              (exampleProof\<lparr>DelegationProof.expiresAt := Some 1859737720000\<rparr>)
            = Inl (ProtocolError INVALID_INPUT f)"
    using delegation_proof_expiry_window
            [of "exampleLib True" 1759737721000
                "exampleProof\<lparr>DelegationProof.expiresAt := Some 1859737720000\<rparr>"
                exampleConfig "[]" "[]" "[]" exampleDelegatedCode exampleDelegatedCode
                1859737720000]
          k
    by simp
  from a b c d show ?thesis by blast
qed

text \<open>
  Claim C8 as stated fails where \<open>expiresAt = now\<close>: the proof is accepted although
  \<open>expiresAt > now\<close> does not hold.
\<close>

theorem delegation_proof_expiring_now_accepted:
  "validateDelegationProof (exampleLib True) 1759737721000
     (exampleProof\<lparr>DelegationProof.expiresAt := Some 1759737721000\<rparr>) = Inr ()"
  by (simp add: validateDelegationProof_def normalizePubkey_def maxFuture_def example_facts)

lemma wellFormed_example_keys:
  "wellFormedUTF16 delegatedKey" "wellFormedUTF16 otherKey"
  by (simp_all add: delegatedKey_def otherKey_def jstr_def isSurrogate_def
        isLeadingSurrogate_def isTrailingSurrogate_def)

lemma serializeCanonical_otherKey:
  "serializeCanonical \<lparr>CanonicalMessageParts.pubkey = Some otherKey,
                       CanonicalMessageParts.windowStart = Some 1759737720000\<rparr>
   = Inr otherMessage"
  by (simp add: serializeCanonical_def canonical_text wellFormed_example_keys example_facts
        NumberToString_example otherMessage_def)
     (simp add: otherKey_def jstr_def)

lemma serializeCanonical_example_Inr:
  "\<exists>m. serializeCanonical \<lparr>CanonicalMessageParts.pubkey = Some delegatedKey,
                             CanonicalMessageParts.windowStart = Some t\<rparr> = Inr m"
  by (simp add: serializeCanonical_def example_facts)

lemma validateDelegatedCode_example:
  "validateDelegatedCode (exampleLib True) exampleConfig 1759737721000 exampleDelegatedCode
   = Inr ()"
proof -
  obtain m where m: "serializeCanonical
      \<lparr>CanonicalMessageParts.pubkey = Some delegatedKey,
       CanonicalMessageParts.windowStart = Some 1759737720000\<rparr> = Inr m"
    using serializeCanonical_example_Inr by blast
  show ?thesis
    by (simp add: validateDelegatedCode_def validateDelegationProof_example exampleConfig_def
          m bs58decode_def nacl_sign_detached_verify_def outcome_def example_facts)
qed

lemma validateDelegatedCode_ignores_code:
  "validateDelegatedCode L cfg now (a\<lparr>code := c\<rparr>) = validateDelegatedCode L cfg now a"
  by (simp add: validateDelegatedCode_def split: option.splits sum.splits)

text \<open>
  Claim C9 fails on the code: \<open>validateDelegatedCode\<close> never reads the \<open>code\<close> field, so a
  delegated action code whose code is not made of digits passes validation.
\<close>

theorem validateDelegatedCode_accepts_malformed_code:
  "validateDelegatedCode (exampleLib True) exampleConfig 1759737721000
     (exampleDelegatedCode\<lparr>code := jstr ''invalid-code''\<rparr>) = Inr ()"
  by (simp add: validateDelegatedCode_ignores_code validateDelegatedCode_example)

text \<open>
  Claim C3, as amended. A delegated action code whose \<open>expiresAt\<close> is greater than its
  proof's is always rejected; the rejection is the \<open>INVALID_INPUT\<close> of this check (field
  \<open>expiresAt\<close>) when the checks before it pass: the code has not expired, the embedded proof
  is valid, and the code's pubkey is the delegated pubkey. When those checks pass and
  \<open>a.expiresAt \<le> proof.expiresAt\<close>, this check does not fire.
\<close>

theorem code_must_not_outlive_proof:
  assumes "delegationProof a = Some p" and "DelegationProof.expiresAt p = Some e"
  shows "(ActionCode.expiresAt a > e \<longrightarrow> validateDelegatedCode L cfg now a \<noteq> Inr ())
    \<and> (ActionCode.expiresAt a > e \<and> now \<le> ActionCode.expiresAt a + skewOf cfg
         \<and> validateDelegationProof L now p = Inr ()
         \<and> ActionCode.pubkey a = delegatedPubkey p \<longrightarrow>
         validateDelegatedCode L cfg now a = Inl (ProtocolError INVALID_INPUT ''expiresAt''))
    \<and> (ActionCode.expiresAt a \<le> e \<and> now \<le> ActionCode.expiresAt a + skewOf cfg
         \<and> validateDelegationProof L now p = Inr ()
         \<and> ActionCode.pubkey a = delegatedPubkey p \<longrightarrow>
         validateDelegatedCode L cfg now a \<noteq> Inl (ProtocolError INVALID_INPUT ''expiresAt''))"
proof -
  have c1: "ActionCode.expiresAt a > e \<longrightarrow> validateDelegatedCode L cfg now a \<noteq> Inr ()"
    using assms
    by (auto simp: validateDelegatedCode_def split: if_splits option.splits sum.splits)
  have c2: "ActionCode.expiresAt a > e \<and> now \<le> ActionCode.expiresAt a + skewOf cfg
         \<and> validateDelegationProof L now p = Inr ()
         \<and> ActionCode.pubkey a = delegatedPubkey p \<longrightarrow>
         validateDelegatedCode L cfg now a = Inl (ProtocolError INVALID_INPUT ''expiresAt'')"
    using assms
    by (auto simp: validateDelegatedCode_def skewOf_def invalidInput_def split: option.splits)
  have c3: "ActionCode.expiresAt a \<le> e \<and> now \<le> ActionCode.expiresAt a + skewOf cfg
         \<and> validateDelegationProof L now p = Inr ()
         \<and> ActionCode.pubkey a = delegatedPubkey p \<longrightarrow>
         validateDelegatedCode L cfg now a \<noteq> Inl (ProtocolError INVALID_INPUT ''expiresAt'')"
    using assms
    by (auto simp: validateDelegatedCode_def skewOf_def invalidInput_def invalidSignature_def
          missingRequiredField_def serializeCanonical_def bs58decode_def
          nacl_sign_detached_verify_def outcome_def
          split: option.splits sum.splits if_splits)
  from c1 c2 c3 show ?thesis by blast
qed

theorem code_must_not_outlive_proof_witness:
  "validateDelegatedCode (exampleLib True) exampleConfig 1759737721000
     (exampleDelegatedCode\<lparr>ActionCode.expiresAt := 1759741320001\<rparr>)
   = Inl (ProtocolError INVALID_INPUT ''expiresAt'')
   \<and> validateDelegatedCode (exampleLib True) exampleConfig 1759737721000 exampleDelegatedCode
     \<noteq> Inl (ProtocolError INVALID_INPUT ''expiresAt'')"
proof -
  have v: "validateDelegationProof (exampleLib True) 1759737721000 exampleProof = Inr ()"
    by (rule validateDelegationProof_example)
  have a: "validateDelegatedCode (exampleLib True) exampleConfig 1759737721000
     (exampleDelegatedCode\<lparr>ActionCode.expiresAt := 1759741320001\<rparr>)
   = Inl (ProtocolError INVALID_INPUT ''expiresAt'')"
    using code_must_not_outlive_proof
            [of "exampleDelegatedCode\<lparr>ActionCode.expiresAt := 1759741320001\<rparr>" exampleProof
                1759741320000 "exampleLib True" exampleConfig 1759737721000]
          v
    by (simp add: example_facts skewOf_def exampleConfig_def)
  have b: "validateDelegatedCode (exampleLib True) exampleConfig 1759737721000
      exampleDelegatedCode \<noteq> Inl (ProtocolError INVALID_INPUT ''expiresAt'')"
    using code_must_not_outlive_proof
            [of exampleDelegatedCode exampleProof 1759741320000 "exampleLib True" exampleConfig
                1759737721000]
          v
    by (simp add: example_facts skewOf_def exampleConfig_def)
  from a b show ?thesis by blast
qed

text \<open>
  Claim C3 as stated fails where the proof has expired before the code: the code outlives
  its proof, and the rejection is \<open>EXPIRED_CODE\<close>, not \<open>INVALID_INPUT\<close>.
\<close>

theorem outliving_code_rejected_as_expired:
  "ActionCode.expiresAt exampleDelegatedCode > 1759737800000
   \<and> validateDelegatedCode (exampleLib True) exampleConfig 1759737810000
       (exampleDelegatedCode
          \<lparr>delegationProof :=
             Some (exampleProof\<lparr>DelegationProof.expiresAt := Some 1759737800000\<rparr>)\<rparr>)
     = Inl (ProtocolError EXPIRED_CODE ''Delegation proof has expired'')"
proof -
  have "validateDelegationProof (exampleLib True) 1759737810000
          (exampleProof\<lparr>DelegationProof.expiresAt := Some 1759737800000\<rparr>)
        = Inl (ProtocolError EXPIRED_CODE ''Delegation proof has expired'')"
    using keysAndChainAccepted_example [of True]
    by (simp add: validateDelegationProof_expiry_cases(2) [where e = 1759737800000])
  then show ?thesis
    by (simp add: validateDelegatedCode_def exampleConfig_def example_facts)
qed

lemma generateCode_pubkey:
  "generateCode L cfg msg ch sg = Inr r \<Longrightarrow>
     ActionCode.pubkey r = map_option fst (decodeCanonical L msg)"
  by (auto simp: generateCode_def split: option.splits)

lemma generateDelegatedCode_result:
  "generateDelegatedCode L cfg now p msg ch sg = Inr a \<Longrightarrow>
     delegationProof a = Some p
     \<and> validateDelegationProof L now p = Inr ()
     \<and> ActionCode.pubkey a = map_option fst (decodeCanonical L msg)"
  by (auto simp: generateDelegatedCode_def ActionCode.extend_def DelegatedActionCode.fields_def
        dest: generateCode_pubkey split: sum.splits)

text \<open>
  Claim C4, as amended. The delegated action code returned by \<open>generateDelegatedCode\<close>
  embeds the given proof unchanged, and its pubkey is the one carried by the canonical
  message: it is \<open>proof.delegatedPubkey\<close> when the message was built for that key, as
  \<open>ActionCodesProtocol.generate\<close> builds it.
\<close>

theorem generateDelegatedCode_binding:
  "generateDelegatedCode L cfg now p msg ch sg = Inr a \<longrightarrow>
     delegationProof a = Some p
     \<and> validateDelegationProof L now p = Inr ()
     \<and> ActionCode.pubkey a = map_option fst (decodeCanonical L msg)
     \<and> (map_option fst (decodeCanonical L msg) = delegatedPubkey p \<longrightarrow>
          ActionCode.pubkey a = delegatedPubkey p)"
  using generateDelegatedCode_result [of L cfg now p msg ch sg a] by simp

lemma decodeFor_own:
  "serializeCanonical \<lparr>CanonicalMessageParts.pubkey = Some pk,
                       CanonicalMessageParts.windowStart = Some ws\<rparr> = Inr m
   \<Longrightarrow> decodeFor pk ws m = Some (pk, ws)"
  by (simp add: decodeFor_def)

text \<open>
  Through the facade the canonical message is built for \<open>proof.delegatedPubkey\<close>; with a
  decoder that reads it back, the generated code carries the delegated key.
\<close>

lemma generate_delegation_pubkey:
  assumes g: "generate P L now (DelegationInput p) c signFn = Inr (DelegatedCode a)"
    and rt: "\<And>m. getCanonicalMessageParts now (delegatedPubkey p) = Inr m \<Longrightarrow>
           map_option fst (decodeCanonical L m) = delegatedPubkey p"
  shows "ActionCode.pubkey a = delegatedPubkey p \<and> delegationProof a = Some p"
proof -
  from g obtain m sg where m: "getCanonicalMessageParts now (delegatedPubkey p) = Inr m"
    and r: "map_sum id DelegatedCode (generateDelegatedCode L (config P) now p m c sg)
            = Inr (DelegatedCode a)"
    by (auto simp: generate_def split: if_splits option.splits sum.splits)
  from r have "generateDelegatedCode L (config P) now p m c sg = Inr a"
    by (cases "generateDelegatedCode L (config P) now p m c sg") auto
  from generateDelegatedCode_result [OF this] rt [OF m] show ?thesis by simp
qed

theorem generateDelegatedCode_binding_witness:
  "map_sum id ActionCode.pubkey
     (generateDelegatedCode
        ((exampleLib True)\<lparr>decodeCanonical := decodeFor otherKey 1759737720000\<rparr>)
        exampleConfig 1759737721000
        (exampleProof\<lparr>delegatedPubkey := Some otherKey\<rparr>)
        otherMessage (jstr ''solana'') zeroSignature)
   = Inr (Some otherKey)
   \<and> map_sum id delegationProof
     (generateDelegatedCode
        ((exampleLib True)\<lparr>decodeCanonical := decodeFor otherKey 1759737720000\<rparr>)
        exampleConfig 1759737721000
        (exampleProof\<lparr>delegatedPubkey := Some otherKey\<rparr>)
        otherMessage (jstr ''solana'') zeroSignature)
   = Inr (Some (exampleProof\<lparr>delegatedPubkey := Some otherKey\<rparr>))"
proof -
  let ?L = "(exampleLib True)\<lparr>decodeCanonical := decodeFor otherKey 1759737720000\<rparr>"
  let ?p = "exampleProof\<lparr>delegatedPubkey := Some otherKey\<rparr>"
  have pk: "publicKeyBytes otherKey = Some (replicate 31 0 @ [2])"
    by code_simp
  have v: "validateDelegationProof ?L 1759737721000 ?p = Inr ()"
    by (simp add: validateDelegationProof_def normalizePubkey_def maxFuture_def example_facts
          exampleLib_def pk)
  have d: "decodeCanonical ?L otherMessage = Some (otherKey, 1759737720000)"
    by (simp add: decodeFor_own serializeCanonical_otherKey)
  have g: "\<exists>r. generateCode ?L exampleConfig otherMessage (jstr ''solana'') zeroSignature
              = Inr r"
    using d by (simp add: generateCode_def exampleLib_def base58Decode_zeroSignature)
  then obtain a where a:
      "generateDelegatedCode ?L exampleConfig 1759737721000 ?p otherMessage (jstr ''solana'')
         zeroSignature = Inr a"
    using v by (auto simp: generateDelegatedCode_def)
  from generateDelegatedCode_binding
         [of ?L exampleConfig 1759737721000 ?p otherMessage "jstr ''solana''" zeroSignature a]
       a d
  show ?thesis by simp
qed

text \<open>
  Claim C4 as stated fails: given a canonical message built for another key, the returned
  code carries that key, not \<open>proof.delegatedPubkey\<close>.
\<close>

theorem generateDelegatedCode_pubkey_from_message:
  "map_sum id ActionCode.pubkey
     (generateDelegatedCode
        ((exampleLib True)\<lparr>decodeCanonical := decodeFor otherKey 1759737720000\<rparr>)
        exampleConfig 1759737721000 exampleProof otherMessage (jstr ''solana'') zeroSignature)
   = Inr (Some otherKey)
   \<and> delegatedPubkey exampleProof = Some delegatedKey
   \<and> otherKey \<noteq> delegatedKey"
proof -
  let ?L = "(exampleLib True)\<lparr>decodeCanonical := decodeFor otherKey 1759737720000\<rparr>"
  have v: "validateDelegationProof ?L 1759737721000 exampleProof = Inr ()"
    by (simp add: validateDelegationProof_def normalizePubkey_def maxFuture_def example_facts
          exampleLib_def)
  have d: "decodeCanonical ?L otherMessage = Some (otherKey, 1759737720000)"
    by (simp add: decodeFor_own serializeCanonical_otherKey)
  show ?thesis
    using v d
    by (simp add: generateDelegatedCode_def generateCode_def exampleLib_def
          ActionCode.extend_def DelegatedActionCode.fields_def
          example_facts)
qed

section \<open>The adapter's signature checks\<close>

lemma bindC_liftC:
  "bindC (liftC r) f = (case r of Inl e \<Rightarrow> (Inl e, 0) | Inr x \<Rightarrow> f x)"
  by (auto simp: bindC_def liftC_def split: sum.splits prod.splits)

lemma bindC_simps:
  "bindC (Inl e, n) f = (Inl e, n)"
  "bindC (Inr x, n) f = (case f x of (r, k) \<Rightarrow> (r, n + k))"
  by (simp_all add: bindC_def)

lemma catchFalse_simps:
  "catchFalse (Inl e, n) = (Inr False, n)" "catchFalse (Inr b, n) = (Inr b, n)"
  by (simp_all add: catchFalse_def)

lemma verify_pair:
  "length sg = 64 \<Longrightarrow> length pk = 32 \<Longrightarrow>
     nacl_sign_detached_verify L msg sg pk = (Inr (ed25519_verify L msg sg pk), 1)"
  by (simp add: nacl_sign_detached_verify_def)

lemma lib_update_sel:
  "normalizePubkey (L\<lparr>ed25519_verify := v\<rparr>) x = normalizePubkey L x"
  "bs58decode (L\<lparr>ed25519_verify := v\<rparr>) x = bs58decode L x"
  "codeHashFn (L\<lparr>ed25519_verify := v\<rparr>) = codeHashFn L"
  "ed25519_verify (L\<lparr>ed25519_verify := v\<rparr>) = v"
  by (simp_all add: normalizePubkey_def bs58decode_def split: option.splits)

lemma walletBody_cases:
  "catchFalse (
     bindC (liftC m) (\<lambda>msg0.
     bindC (liftC rp) (\<lambda>pubBytes.
     bindC (liftC rs) (\<lambda>sigBytes.
       if length sigBytes \<noteq> 64 \<or> length pubBytes \<noteq> 32 then returnC False
       else nacl_sign_detached_verify L msg0 sigBytes pubBytes))))
   = (case (m, rp, rs) of
        (Inr msg0, Inr pubBytes, Inr sigBytes) \<Rightarrow>
          if length sigBytes = 64 \<and> length pubBytes = 32
          then (Inr (ed25519_verify L msg0 sigBytes pubBytes), 1)
          else (Inr False, 0)
      | _ \<Rightarrow> (Inr False, 0))"
  by (auto simp: bindC_liftC catchFalse_simps returnC_def verify_pair split: sum.splits)

lemma delegationBody_cases:
  "catchFalse (
     bindC (liftC dm) (\<lambda>delegationMessage.
     bindC (liftC rwp) (\<lambda>walletPubBytes.
     bindC (liftC rws) (\<lambda>walletSigBytes.
     bindC (liftC m) (\<lambda>msg0.
     bindC (liftC rdp) (\<lambda>delegatedPubBytes.
     bindC (liftC rds) (\<lambda>delegatedSigBytes.
       if length walletSigBytes \<noteq> 64 \<or> length walletPubBytes \<noteq> 32 then returnC False
       else if length delegatedSigBytes \<noteq> 64 \<or> length delegatedPubBytes \<noteq> 32
         then returnC False
       else
         bindC (nacl_sign_detached_verify L delegationMessage walletSigBytes walletPubBytes)
           (\<lambda>delegationProofOk.
         bindC (nacl_sign_detached_verify L msg0 delegatedSigBytes delegatedPubBytes)
           (\<lambda>msgOk.
         returnC (delegationProofOk \<and> msgOk))))))))))
   = (case (dm, rwp, rws, m, rdp, rds) of
        (Inr delegationMessage, Inr walletPubBytes, Inr walletSigBytes, Inr msg0,
         Inr delegatedPubBytes, Inr delegatedSigBytes) \<Rightarrow>
          if length walletSigBytes = 64 \<and> length walletPubBytes = 32
             \<and> length delegatedSigBytes = 64 \<and> length delegatedPubBytes = 32
          then (Inr (ed25519_verify L delegationMessage walletSigBytes walletPubBytes
                     \<and> ed25519_verify L msg0 delegatedSigBytes delegatedPubBytes), 2)
          else (Inr False, 0)
      | _ \<Rightarrow> (Inr False, 0))"
  by (auto simp: bindC_liftC catchFalse_simps returnC_def verify_pair bindC_simps
        split: sum.splits)

text \<open>
  Each check either returns false without any verification, whatever the verifier, or
  hands fixed arguments to the verifier: once for the wallet checks, twice for the
  delegation checks, the result being the verifier's answer (the conjunction of its two
  answers).
\<close>

lemma single_shape:
  "(\<forall>v. (case (m, rp, rs) of
           (Inr msg0, Inr pubBytes, Inr sigBytes) \<Rightarrow>
             if length sigBytes = 64 \<and> length pubBytes = 32
             then (Inr (v msg0 sigBytes pubBytes), 1 :: nat)
             else (Inr False, 0)
         | _ \<Rightarrow> (Inr False, 0)) = (Inr False, 0))
   \<or> (\<exists>m' s p. \<forall>v. (case (m, rp, rs) of
           (Inr msg0, Inr pubBytes, Inr sigBytes) \<Rightarrow>
             if length sigBytes = 64 \<and> length pubBytes = 32
             then (Inr (v msg0 sigBytes pubBytes), 1 :: nat)
             else (Inr False, 0)
         | _ \<Rightarrow> (Inr False, 0)) = (Inr (v m' s p), 1))"
  by (cases m; cases rp; cases rs) auto

lemma double_shape:
  "(\<forall>v. (case (dm, rwp, rws, m, rdp, rds) of
           (Inr delegationMessage, Inr walletPubBytes, Inr walletSigBytes, Inr msg0,
            Inr delegatedPubBytes, Inr delegatedSigBytes) \<Rightarrow>
             if length walletSigBytes = 64 \<and> length walletPubBytes = 32
                \<and> length delegatedSigBytes = 64 \<and> length delegatedPubBytes = 32
             then (Inr (v delegationMessage walletSigBytes walletPubBytes
                        \<and> v msg0 delegatedSigBytes delegatedPubBytes), 2 :: nat)
             else (Inr False, 0)
         | _ \<Rightarrow> (Inr False, 0)) = (Inr False, 0))
   \<or> (\<exists>m1 s1 p1 m2 s2 p2. \<forall>v. (case (dm, rwp, rws, m, rdp, rds) of
           (Inr delegationMessage, Inr walletPubBytes, Inr walletSigBytes, Inr msg0,
            Inr delegatedPubBytes, Inr delegatedSigBytes) \<Rightarrow>
             if length walletSigBytes = 64 \<and> length walletPubBytes = 32
                \<and> length delegatedSigBytes = 64 \<and> length delegatedPubBytes = 32
             then (Inr (v delegationMessage walletSigBytes walletPubBytes
                        \<and> v msg0 delegatedSigBytes delegatedPubBytes), 2 :: nat)
             else (Inr False, 0)
         | _ \<Rightarrow> (Inr False, 0)) = (Inr (v m1 s1 p1 \<and> v m2 s2 p2), 2))"
  by (cases dm; cases rwp; cases rws; cases m; cases rdp; cases rds; simp; blast)

lemma verifyWithWallet_shape:
  "(\<forall>v. verifyWithWallet (L\<lparr>ed25519_verify := v\<rparr>) a = (Inr False, 0))
   \<or> (\<exists>m s p. \<forall>v. verifyWithWallet (L\<lparr>ed25519_verify := v\<rparr>) a = (Inr (v m s p), 1))"
proof (cases "ActionCode.chain a \<noteq> ADAPTER_CHAIN_NAME \<or> falsy_str (ActionCode.pubkey a)
                \<or> falsy_num (timestamp a) \<or> falsy_str (ActionCode.signature a)")
  case True
  then show ?thesis by (auto simp: verifyWithWallet_def returnC_def)
next
  case False
  then show ?thesis
    unfolding verifyWithWallet_def walletBody_cases lib_update_sel
    using single_shape
            [of "serializeCanonical
                   \<lparr>CanonicalMessageParts.pubkey = ActionCode.pubkey a,
                    CanonicalMessageParts.windowStart = timestamp a\<rparr>"
                "normalizePubkey L (ActionCode.pubkey a)"
                "bs58decode L (ActionCode.signature a)"]
    by simp
qed

lemma verifyRevokeWithWallet_shape:
  "(\<forall>v. verifyRevokeWithWallet (L\<lparr>ed25519_verify := v\<rparr>) a rs = (Inr False, 0))
   \<or> (\<exists>m s p. \<forall>v. verifyRevokeWithWallet (L\<lparr>ed25519_verify := v\<rparr>) a rs
                     = (Inr (v m s p), 1))"
proof (cases "ActionCode.chain a \<noteq> ADAPTER_CHAIN_NAME \<or> falsy_str (ActionCode.pubkey a)
                \<or> falsy_num (timestamp a) \<or> falsy_str rs")
  case True
  then show ?thesis by (auto simp: verifyRevokeWithWallet_def returnC_def)
next
  case False
  then show ?thesis
    unfolding verifyRevokeWithWallet_def walletBody_cases lib_update_sel
    using single_shape
            [of "serializeCanonicalRevoke
                   \<lparr>CanonicalRevokeMessageParts.pubkey = ActionCode.pubkey a,
                    codeHash = Some (codeHashFn L (code a)),
                    windowStart = timestamp a\<rparr>"
                "normalizePubkey L (ActionCode.pubkey a)"
                "bs58decode L rs"]
    by simp
qed

lemma delegationChecks_shape:
  "(\<forall>v. delegationChecks (L\<lparr>ed25519_verify := v\<rparr>) now d p m sg = (Inr False, 0))
   \<or> (\<exists>m1 s1 p1 m2 s2 p2.
        \<forall>v. delegationChecks (L\<lparr>ed25519_verify := v\<rparr>) now d p m sg
             = (Inr (v m1 s1 p1 \<and> v m2 s2 p2), 2))"
proof (cases "falsy_str (walletPubkey p) \<or> falsy_str (delegatedPubkey p)
         \<or> falsy_str (DelegationProof.chain p) \<or> falsy_num (DelegationProof.expiresAt p)
         \<or> falsy_str (DelegationProof.signature p)
         \<or> DelegationProof.chain p \<noteq> Some ADAPTER_CHAIN_NAME
         \<or> ActionCode.pubkey d \<noteq> delegatedPubkey p
         \<or> (case DelegationProof.expiresAt p of Some e \<Rightarrow> e < now | None \<Rightarrow> False)")
  case True
  then show ?thesis by (auto simp: delegationChecks_def returnC_def)
next
  case False
  then show ?thesis
    unfolding delegationChecks_def delegationBody_cases lib_update_sel
    using double_shape
            [of "serializeDelegationProof p" "normalizePubkey L (walletPubkey p)"
                "bs58decode L (DelegationProof.signature p)" m
                "normalizePubkey L (delegatedPubkey p)" "bs58decode L sg"]
    by simp
qed


lemma verifyRevokeWithDelegation_shape:
  "(\<forall>v. verifyRevokeWithDelegation (L\<lparr>ed25519_verify := v\<rparr>) now d rs = (Inr False, 0))
   \<or> (\<exists>m1 s1 p1 m2 s2 p2.
        \<forall>v. verifyRevokeWithDelegation (L\<lparr>ed25519_verify := v\<rparr>) now d rs
             = (Inr (v m1 s1 p1 \<and> v m2 s2 p2), 2))"
proof (cases "delegationProof d")
  case None
  then show ?thesis by (auto simp: verifyRevokeWithDelegation_def returnC_def)
next
  case (Some p)
  show ?thesis
  proof (cases "ActionCode.chain d \<noteq> ADAPTER_CHAIN_NAME \<or> falsy_str (ActionCode.pubkey d)
                \<or> falsy_num (timestamp d) \<or> falsy_str (ActionCode.signature d)")
    case True
    then show ?thesis by (auto simp: verifyRevokeWithDelegation_def returnC_def)
  next
    case False
    then show ?thesis
    unfolding verifyRevokeWithDelegation_def lib_update_sel
    using Some
        delegationChecks_shape
          [of L now d p
              "serializeCanonicalRevoke
                 \<lparr>CanonicalRevokeMessageParts.pubkey = delegatedPubkey p,
                  codeHash = Some (codeHashFn L (code d)),
                  windowStart = timestamp d\<rparr>"
              rs]
    by simp
  qed
qed

lemma lib_update_same: "L\<lparr>ed25519_verify := ed25519_verify L\<rparr> = (L :: CryptoLib)"
  by simp

lemma verifyWithWallet_count:
  "verifications (verifyWithWallet (L\<lparr>ed25519_verify := v\<rparr>) a)
     = verifications (verifyWithWallet L a)
   \<and> (verifications (verifyWithWallet L a) = 0 \<or> verifications (verifyWithWallet L a) = 1)
   \<and> (outcome (verifyWithWallet L a) = Inr True \<longrightarrow> verifications (verifyWithWallet L a) = 1)
   \<and> (\<exists>b. outcome (verifyWithWallet L a) = Inr b)"
proof -
  from verifyWithWallet_shape [of L a]
  have "(verifyWithWallet (L\<lparr>ed25519_verify := v\<rparr>) a = (Inr False, 0)
         \<and> verifyWithWallet (L\<lparr>ed25519_verify := ed25519_verify L\<rparr>) a = (Inr False, 0))
     \<or> (\<exists>b c. verifyWithWallet (L\<lparr>ed25519_verify := v\<rparr>) a = (Inr b, 1)
         \<and> verifyWithWallet (L\<lparr>ed25519_verify := ed25519_verify L\<rparr>) a = (Inr c, 1))"
    by blast
  then show ?thesis
    unfolding lib_update_same by (auto simp: verifications_def outcome_def)
qed

lemma verifyRevokeWithWallet_count:
  "verifications (verifyRevokeWithWallet (L\<lparr>ed25519_verify := v\<rparr>) a rs)
     = verifications (verifyRevokeWithWallet L a rs)
   \<and> (verifications (verifyRevokeWithWallet L a rs) = 0
        \<or> verifications (verifyRevokeWithWallet L a rs) = 1)
   \<and> (outcome (verifyRevokeWithWallet L a rs) = Inr True \<longrightarrow>
        verifications (verifyRevokeWithWallet L a rs) = 1)
   \<and> (\<exists>b. outcome (verifyRevokeWithWallet L a rs) = Inr b)"
proof -
  from verifyRevokeWithWallet_shape [of L a rs]
  have "(verifyRevokeWithWallet (L\<lparr>ed25519_verify := v\<rparr>) a rs = (Inr False, 0)
         \<and> verifyRevokeWithWallet (L\<lparr>ed25519_verify := ed25519_verify L\<rparr>) a rs
           = (Inr False, 0))
     \<or> (\<exists>b c. verifyRevokeWithWallet (L\<lparr>ed25519_verify := v\<rparr>) a rs = (Inr b, 1)
         \<and> verifyRevokeWithWallet (L\<lparr>ed25519_verify := ed25519_verify L\<rparr>) a rs
           = (Inr c, 1))"
    by blast
  then show ?thesis
    unfolding lib_update_same by (auto simp: verifications_def outcome_def)
qed


lemma verifyRevokeWithDelegation_count:
  "verifications (verifyRevokeWithDelegation (L\<lparr>ed25519_verify := v\<rparr>) now d rs)
     = verifications (verifyRevokeWithDelegation L now d rs)
   \<and> (verifications (verifyRevokeWithDelegation L now d rs) = 0
        \<or> verifications (verifyRevokeWithDelegation L now d rs) = 2)
   \<and> (outcome (verifyRevokeWithDelegation L now d rs) = Inr True \<longrightarrow>
        verifications (verifyRevokeWithDelegation L now d rs) = 2)
   \<and> (\<exists>b. outcome (verifyRevokeWithDelegation L now d rs) = Inr b)"
proof -
  from verifyRevokeWithDelegation_shape [of L now d rs]
  have "(verifyRevokeWithDelegation (L\<lparr>ed25519_verify := v\<rparr>) now d rs = (Inr False, 0)
         \<and> verifyRevokeWithDelegation (L\<lparr>ed25519_verify := ed25519_verify L\<rparr>) now d rs
           = (Inr False, 0))
     \<or> (\<exists>b c. verifyRevokeWithDelegation (L\<lparr>ed25519_verify := v\<rparr>) now d rs = (Inr b, 2)
         \<and> verifyRevokeWithDelegation (L\<lparr>ed25519_verify := ed25519_verify L\<rparr>) now d rs
           = (Inr c, 2))"
    by blast
  then show ?thesis
    unfolding lib_update_same by (auto simp: verifications_def outcome_def)
qed








text \<open>
  Claim C6 fails on the code: \<open>verifyWithDelegation\<close> reads a property of the delegation
  proof before any test of its presence, so an action code that passes the first tests and
  has no \<open>delegationProof\<close> makes it throw a \<open>TypeError\<close>. The other three operations never
  throw; \<open>verifyRevokeWithDelegation\<close> tests the presence of the proof first.
\<close>

theorem verifyWithDelegation_throws_without_proof:
  "outcome (verifyWithDelegation L now (exampleDelegatedCode\<lparr>delegationProof := None\<rparr>))
   = Inl TypeError"
  by (simp add: verifyWithDelegation_def ADAPTER_CHAIN_NAME_def outcome_def example_facts)

lemma other_checks_never_throw:
  "\<exists>b. outcome (verifyWithWallet L a) = Inr b"
  "\<exists>b. outcome (verifyRevokeWithWallet L a rs) = Inr b"
  "\<exists>b. outcome (verifyRevokeWithDelegation L now d rs) = Inr b"
  using verifyWithWallet_count [where L = L and v = "ed25519_verify L" and a = a]
    verifyRevokeWithWallet_count [where L = L and v = "ed25519_verify L" and a = a and rs = rs]
    verifyRevokeWithDelegation_count
      [where L = L and v = "ed25519_verify L" and now = now and d = d and rs = rs]
  by blast+

lemma delegationChecks_never_throws:
  "\<exists>b. outcome (delegationChecks L now d p m sg) = Inr b"
proof -
  from delegationChecks_shape [of L now d p m sg]
  have "\<exists>b n. delegationChecks (L\<lparr>ed25519_verify := ed25519_verify L\<rparr>) now d p m sg
          = (Inr b, n)"
    by blast
  then show ?thesis
    unfolding lib_update_same by (auto simp: outcome_def)
qed

lemma verifyWithDelegation_throws_only_without_proof:
  assumes "delegationProof d \<noteq> None"
  shows "\<exists>b. outcome (verifyWithDelegation L now d) = Inr b"
  using assms delegationChecks_never_throws [of L now d]
  by (auto simp: verifyWithDelegation_def returnC_def outcome_def)

section \<open>Attaching protocol meta to a transaction\<close>

lemma example_key_not_memo: "replicate 31 0 @ [1] \<noteq> MEMO_PROGRAM_ID"
  by (simp add: MEMO_PROGRAM_ID_def)

lemma attachV0_signatures:
  "attachV0 T sigs vtx msg metaIx conn = Inr (tx, out) \<Longrightarrow>
     \<exists>newMsg. tx = VersionedTx \<lparr>message = V0 newMsg, signatures = sigs vtx newMsg\<rparr>"
  by (auto simp: attachV0_def serializedVersioned_def Let_def
        split: if_splits option.splits sum.splits)

lemma attachLegacy_legacy:
  "attachLegacy T s metaIx = Inr (tx, out) \<Longrightarrow> \<exists>t. tx = LegacyTx t"
  by (auto simp: attachLegacy_def Let_def split: option.splits)

lemma attachWith_versioned:
  assumes "attachWith T existing sigs s meta conn = Inr (VersionedTx tx', out)"
  shows "\<exists>vtx newMsg. VersionedTransaction_deserialize T s = Some vtx
           \<and> tx' = \<lparr>message = V0 newMsg, signatures = sigs vtx newMsg\<rparr>"
proof -
  from assms obtain metaIx where ix: "createProtocolMetaIx T meta = Inr metaIx"
    by (auto simp: attachWith_def split: if_splits sum.splits)
  let ?attempt = "case VersionedTransaction_deserialize T s of
                None \<Rightarrow> Inl LibraryError
              | Some versionedTx \<Rightarrow>
                 (case message versionedTx of
                    V0 msg \<Rightarrow> attachV0 T sigs versionedTx msg metaIx conn
                  | LegacyMessage ks ixs \<Rightarrow> attachLegacy T s metaIx)"
  from assms ix have r: "?attempt = Inr (VersionedTx tx', out)
      \<or> attachLegacy T s metaIx = Inr (VersionedTx tx', out)"
    by (auto simp: attachWith_def split: if_splits sum.splits)
  moreover have "attachLegacy T s metaIx \<noteq> Inr (VersionedTx tx', out)"
    using attachLegacy_legacy [of T s metaIx "VersionedTx tx'" out] by auto
  ultimately have t: "?attempt = Inr (VersionedTx tx', out)" by blast
  then obtain vtx where v: "VersionedTransaction_deserialize T s = Some vtx"
    by (auto split: option.splits)
  with t obtain msg where m: "message vtx = V0 msg"
      "attachV0 T sigs vtx msg metaIx conn = Inr (VersionedTx tx', out)"
    using attachLegacy_legacy [of T s metaIx "VersionedTx tx'" out]
    by (cases "message vtx") auto
  from attachV0_signatures [OF m(2)] v show ?thesis by auto
qed

text \<open>
  The later revision of \<open>attachProtocolMeta\<close> returns a versioned transaction whose
  signatures are \<open>numRequiredSignatures\<close> arrays of 64 zero bytes, whatever the transaction
  it was given carried.
\<close>

lemma attachProtocolMeta_v2_fresh_signatures:
  assumes "attachProtocolMeta_v2 T s meta conn = Inr (VersionedTx tx', out)"
  shows "\<exists>newMsg. message tx' = V0 newMsg
           \<and> VersionedTransaction.signatures tx'
               = replicate (numRequiredSignatures (header newMsg)) (replicate 64 0)"
  using attachWith_versioned [OF assms [unfolded attachProtocolMeta_v2_def]]
  by (auto simp: freshSignatures_def)

text \<open>adapters/SolanaAdapter.ts returns the signatures of the transaction it was given.\<close>

lemma attachProtocolMeta_preserves_signatures:
  assumes "attachProtocolMeta T s meta conn = Inr (VersionedTx tx', out)"
  shows "\<exists>vtx. VersionedTransaction_deserialize T s = Some vtx
           \<and> VersionedTransaction.signatures tx' = VersionedTransaction.signatures vtx"
  using attachWith_versioned [OF assms [unfolded attachProtocolMeta_def]]
  by (auto simp: preservedSignatures_def)


lemma attachProtocolMeta_v2_example:
  "attachProtocolMeta_v2 exampleTxLib (jstr ''tx'') exampleMeta None =
     Inr (VersionedTx
            \<lparr>message = V0 (exampleMessage
               \<lparr>staticAccountKeys := [replicate 31 0 @ [1], MEMO_PROGRAM_ID],
                compiledInstructions :=
                  [\<lparr>programIdIndex = 1, accountKeyIndexes = [],
                    data = TextEncoder_encode exampleMetaString\<rparr>]\<rparr>),
             signatures = [replicate 64 0]\<rparr>,
          jstr ''serialized'')"
  by (simp add: attachProtocolMeta_v2_def attachWith_def getProtocolMeta_v2_def
        deserializeTransaction_v2_def getMemoInstructions_v2_def memoInstructionsOf_def
        List.map_filter_def
        createProtocolMetaIx_def exampleTxLib_sel exampleTx_def attachV0_def
        exampleMessage_def referencesLookupAccounts_def example_key_not_memo findIndex_def
        serializedVersioned_def freshSignatures_def Let_def)

section \<open>The facade and its chains\<close>

lemma proto_inherited: "jstr ''__proto__'' \<in> set objectPrototypeNames"
  by (simp add: objectPrototypeNames_def)

lemma constructor_inherited: "jstr ''constructor'' \<in> set objectPrototypeNames"
  by (simp add: objectPrototypeNames_def)

text \<open>
  For a chain \<open>c\<close> that is neither \<open>"solana"\<close> nor a name inherited from \<open>Object.prototype\<close>,
  \<open>generate\<close> and \<open>revoke\<close> throw \<open>INVALID_ADAPTER\<close> also after
  \<open>registerAdapter(c, adapter)\<close>, whatever the strategy, while \<open>getAdapter(c)\<close> then returns
  the adapter: registering extends the registry only.
\<close>

lemma unsupported_chain_rejected:
  assumes "c \<noteq> jstr ''solana''" and "c \<notin> set objectPrototypeNames"
  shows "generate (registerAdapter P c adapter) L now input c signFn
           = Inl (ProtocolError INVALID_ADAPTER ''chain'')
       \<and> revoke (registerAdapter P c adapter) L rinput c signFn
           = Inl (ProtocolError INVALID_ADAPTER ''chain'')
       \<and> getAdapter (registerAdapter P c adapter) c = Some (Adapter adapter)"
proof -
  from assms(2) proto_inherited have "c \<noteq> jstr ''__proto__''"
    by auto
  with assms show ?thesis
    by (simp add: generate_def revoke_def SUPPORTED_CHAINS_def invalidAdapter_def
          getAdapter_def registerAdapter_def)
qed

lemma unsupported_chain_rejected_example:
  "generate (registerAdapter (newActionCodesProtocol ''SolanaAdapter'' exampleConfig)
               (jstr ''nodecrypto'') ''NodeCryptoAdapter'')
     (exampleLib True) 1759737721000 (WalletInput (Some walletKey)) (jstr ''nodecrypto'')
     (Some (\<lambda>m c. Inr (Some zeroSignature)))
   = Inl (ProtocolError INVALID_ADAPTER ''chain'')
   \<and> getAdapter (registerAdapter (newActionCodesProtocol ''SolanaAdapter'' exampleConfig)
               (jstr ''nodecrypto'') ''NodeCryptoAdapter'') (jstr ''nodecrypto'')
   = Some (Adapter ''NodeCryptoAdapter'')"
proof -
  have ne: "jstr ''nodecrypto'' \<noteq> jstr ''solana''"
    by (simp add: jstr_def)
  have ni: "jstr ''nodecrypto'' \<notin> set objectPrototypeNames"
    by (simp add: objectPrototypeNames_def jstr_def)
  from unsupported_chain_rejected
         [OF ne ni, where P = "newActionCodesProtocol ''SolanaAdapter'' exampleConfig"
            and adapter = "''NodeCryptoAdapter''" and L = "exampleLib True"
            and now = 1759737721000 and input = "WalletInput (Some walletKey)"
            and rinput = "WalletRevoke exampleCode"
            and signFn = "Some (\<lambda>m c. Inr (Some zeroSignature))"]
  show ?thesis by simp
qed

text \<open>The registry answers an inherited name too, before anything is registered.\<close>

lemma getAdapter_inherited:
  "getAdapter (newActionCodesProtocol ''SolanaAdapter'' exampleConfig) (jstr ''constructor'')
   = Some (ObjectPrototypeMember (jstr ''constructor''))"
  by (simp add: getAdapter_def newActionCodesProtocol_def constructor_inherited)
     (simp add: jstr_def)

lemma revokeMessage_example:
  "\<exists>m. revokeMessage (exampleLib True) (WalletRevoke exampleCode) = Inr m"
proof -
  have h: "\<not> hasUnsafeChars (jstr ''H'' @ jstr ''12345678'')"
    by (simp add: hasUnsafeChars_def unsafeUnit_def jstr_def)
  have l: "length (jstr ''H'') = 1" "length (jstr ''12345678'') = 8" "jstr ''H'' \<noteq> []"
    by (simp_all add: jstr_def)
  show ?thesis
    by (simp add: revokeMessage_def serializeCanonicalRevoke_def example_facts h l)
qed

text \<open>
  Claim C10 fails on the code: the guard of \<open>generate\<close> and \<open>revoke\<close> reads
  \<open>SUPPORTED_CHAINS[chain]\<close>, which is truthy for a name the object inherits from
  \<open>Object.prototype\<close>. For the chain \<open>"constructor"\<close>, after an adapter was registered
  under it, \<open>revoke\<close> returns a revoke record and \<open>generate\<close> an action code of that chain
  instead of throwing \<open>INVALID_ADAPTER\<close>.
\<close>

theorem inherited_chain_name_accepted:
  "revoke (registerAdapter (newActionCodesProtocol ''SolanaAdapter'' exampleConfig)
             (jstr ''constructor'') ''NodeCryptoAdapter'')
     (exampleLib True) (WalletRevoke exampleCode) (jstr ''constructor'')
     (Some (\<lambda>m c. Inr (Some zeroSignature)))
   = Inr (RevokeRecord (WalletRevoke exampleCode) zeroSignature)
   \<and> generate (registerAdapter (newActionCodesProtocol ''SolanaAdapter'' exampleConfig)
                 (jstr ''constructor'') ''NodeCryptoAdapter'')
       (exampleLib True) 1759737720000 (WalletInput (Some delegatedKey))
       (jstr ''constructor'') (Some (\<lambda>m c. Inr (Some zeroSignature)))
     = Inr (WalletCode
              \<lparr>ActionCode.chain = jstr ''constructor'',
               code = digitsFromDigest (replicate 32 7) 8,
               pubkey = Some delegatedKey,
               timestamp = Some 1759737720000,
               expiresAt = 1759737840000,
               signature = Some zeroSignature\<rparr>)"
proof -
  have sup: "SUPPORTED_CHAINS (jstr ''constructor'')"
    by (simp add: SUPPORTED_CHAINS_def constructor_inherited)
  have ne: "jstr ''constructor'' \<noteq> []"
    by (simp add: jstr_def)
  obtain m where m: "revokeMessage (exampleLib True) (WalletRevoke exampleCode) = Inr m"
    using revokeMessage_example by blast
  have r: "revoke (registerAdapter (newActionCodesProtocol ''SolanaAdapter'' exampleConfig)
                     (jstr ''constructor'') ''NodeCryptoAdapter'')
             (exampleLib True) (WalletRevoke exampleCode) (jstr ''constructor'')
             (Some (\<lambda>m c. Inr (Some zeroSignature)))
           = Inr (RevokeRecord (WalletRevoke exampleCode) zeroSignature)"
    by (simp add: revoke_def sup ne m example_facts)
  obtain msg0 where c: "getCanonicalMessageParts 1759737720000 (Some delegatedKey) = Inr msg0"
    using serializeCanonical_example_Inr [of 1759737720000]
    by (auto simp: getCanonicalMessageParts_def)
  then have d: "decodeFor delegatedKey 1759737720000 msg0 = Some (delegatedKey, 1759737720000)"
    by (simp add: decodeFor_def getCanonicalMessageParts_def)
  have cfg: "config (registerAdapter (newActionCodesProtocol ''SolanaAdapter'' exampleConfig)
                       (jstr ''constructor'') ''NodeCryptoAdapter'') = exampleConfig"
    by (simp add: registerAdapter_def newActionCodesProtocol_def)
  have sel: "codeLength exampleConfig = 8" "ttlMs exampleConfig = 120000"
    by (simp_all add: exampleConfig_def)
  have g: "generate (registerAdapter (newActionCodesProtocol ''SolanaAdapter'' exampleConfig)
                       (jstr ''constructor'') ''NodeCryptoAdapter'')
             (exampleLib True) 1759737720000 (WalletInput (Some delegatedKey))
             (jstr ''constructor'') (Some (\<lambda>m c. Inr (Some zeroSignature)))
           = Inr (WalletCode
                    \<lparr>ActionCode.chain = jstr ''constructor'',
                     code = digitsFromDigest (replicate 32 7) 8,
                     pubkey = Some delegatedKey,
                     timestamp = Some 1759737720000,
                     expiresAt = 1759737840000,
                     signature = Some zeroSignature\<rparr>)"
    by (simp add: generate_def sup ne c cfg generateCode_def d example_facts
          sel clampCodeLength_def CODE_MIN_LENGTH_def CODE_MAX_LENGTH_def)
  from r g show ?thesis by simp
qed

end
